theory Spec2Isabelle
  imports Main
begin

section \<open>Tables, workbook files and the world the tracker runs in\<close>

text \<open>
  The job tracker (\<^verbatim>\<open>backend.py\<close>, class \<^verbatim>\<open>JobExtractor\<close>) keeps its
  applications in one workbook, \<^verbatim>\<open>Summer2026_Applications.xlsx\<close>, which it reads
  with \<^verbatim>\<open>pd.read_excel\<close> and rewrites with \<^verbatim>\<open>df.to_excel(..., index=False)\<close>.

  A data frame is a list of column names and a list of rows, every row as wide as the
  column list. A cell of a data frame is a text or the missing value \<open>NaN\<close>. A cell of
  a workbook sheet is a text, the empty text being the empty cell: the writer stores both
  \<open>NaN\<close> and \<open>""\<close> as an empty cell, and the reader returns an empty cell as \<open>NaN\<close>
  (the repository's \<^verbatim>\<open>fix_url_column.py\<close> counts these \<open>NaN\<close> values in the
  \<open>URL\<close> column and \<^verbatim>\<open>check_urls.py\<close> filters them by \<^verbatim>\<open>str(url) != 'nan'\<close>).
  Record values are texts, as the fields of a record are; what the reader does beyond the
  rule for empty cells (numbers, other spellings it takes for missing, renaming of blank
  or repeated headers, dropping of blank rows at the end of a sheet) is outside this model.
\<close>

datatype cell = Str string | NaN

record dataframe =
  columns :: "string list"
  rows :: "cell list list"

text \<open>\<^verbatim>\<open>df.empty\<close>: some axis has length 0. \<^verbatim>\<open>len(df)\<close> is the number of rows.\<close>

definition df_empty :: "dataframe \<Rightarrow> bool" where
  "df_empty df = (columns df = [] \<or> rows df = [])"

datatype file_content = Workbook "string list" "string list list" | Garbage string

definition read_cell :: "string \<Rightarrow> cell" where
  "read_cell s = (if s = [] then NaN else Str s)"

definition write_cell :: "cell \<Rightarrow> string" where
  "write_cell c = (case c of Str s \<Rightarrow> s | NaN \<Rightarrow> [])"

text \<open>The reader pads a short sheet row with missing values up to the header's width.\<close>

definition fit :: "nat \<Rightarrow> cell list \<Rightarrow> cell list" where
  "fit n cs = take n (cs @ replicate (n - length cs) NaN)"

definition parse_sheet :: "string list \<Rightarrow> string list list \<Rightarrow> dataframe" where
  "parse_sheet header body =
     \<lparr>columns = header, rows = map (\<lambda>r. fit (length header) (map read_cell r)) body\<rparr>"

definition render_sheet :: "dataframe \<Rightarrow> file_content" where
  "render_sheet df = Workbook (columns df) (map (map write_cell) (rows df))"

text \<open>
  Exceptions are values. The code tells \<^verbatim>\<open>PermissionError\<close> from every other
  \<^verbatim>\<open>Exception\<close>; the text is what \<^verbatim>\<open>str(e)\<close> gives.
\<close>

datatype error = PermissionError string | OtherException string

fun str_error :: "error \<Rightarrow> string" where
  "str_error (PermissionError m) = m"
| "str_error (OtherException m) = m"

datatype level = INFO | WARNING | ERROR

text \<open>
  The world: the workbook file (\<open>None\<close> when the path does not exist), the outcome of
  the coming attempts to open it (\<open>True\<close>: the operating system refuses with a
  \<^verbatim>\<open>PermissionError\<close>, as it does while a spreadsheet program holds the file; an
  exhausted list grants every attempt), the seconds slept so far, the current date as
  \<^verbatim>\<open>datetime.now().strftime('%Y-%m-%d')\<close> prints it, and the log.
\<close>

record world =
  disk :: "file_content option"
  denials :: "bool list"
  slept :: nat
  today :: string
  logged :: "(level \<times> string) list"

definition logger :: "level \<Rightarrow> string \<Rightarrow> world \<Rightarrow> world" where
  "logger l m w = w\<lparr>logged := logged w @ [(l, m)]\<rparr>"

definition sleep :: "nat \<Rightarrow> world \<Rightarrow> world" where
  "sleep n w = w\<lparr>slept := slept w + n\<rparr>"

definition open_file :: "world \<Rightarrow> bool \<times> world" where
  "open_file w = (case denials w of [] \<Rightarrow> (False, w) | d # ds \<Rightarrow> (d, w\<lparr>denials := ds\<rparr>))"

definition excel_file :: string where
  "excel_file = ''Summer2026_Applications.xlsx''"

subsection \<open>Printing numbers\<close>

function str_nat :: "nat \<Rightarrow> string" where
  "str_nat n = (if n < 10 then [''0123456789'' ! n]
                else str_nat (n div 10) @ [''0123456789'' ! (n mod 10)])"
  by pat_completeness auto
termination
  by (relation "measure (\<lambda>n. n)") auto

definition str_int :: "int \<Rightarrow> string" where
  "str_int i = (if i < 0 then ''-'' @ str_nat (nat (- i)) else str_nat (nat i))"

section \<open>The lock probe\<close>

text \<open>
  \<^verbatim>\<open>is_file_locked\<close>: \<^verbatim>\<open>open(filepath, 'a')\<close> inside \<^verbatim>\<open>try\<close>. A refused
  open returns \<open>True\<close>. A granted open in append mode leaves the bytes of an existing
  file alone and creates the file, with no bytes in it, when the path does not exist.
\<close>

definition is_file_locked :: "world \<Rightarrow> bool \<times> world" where
  "is_file_locked w =
     (let (denied, w1) = open_file w in
      if denied then (True, w1)
      else (False, if disk w1 = None then w1\<lparr>disk := Some (Garbage [])\<rparr> else w1))"

text \<open>
  \<^verbatim>\<open>wait_for_file_unlock\<close>: the \<^verbatim>\<open>while wait_time < max_wait\<close> loop, started at
  \<open>wait_time = 0\<close>.
\<close>

function wait_loop :: "int \<Rightarrow> int \<Rightarrow> world \<Rightarrow> bool \<times> world" where
  "wait_loop wait_time max_wait w =
     (if wait_time < max_wait then
        (case is_file_locked w of
           (False, w1) \<Rightarrow> (True, w1)
         | (True, w1) \<Rightarrow>
             wait_loop (wait_time + 2) max_wait
               (sleep 2 (logger INFO (''File is locked, waiting... ('' @ str_int wait_time
                    @ ''s/'' @ str_int max_wait @ ''s)'') w1)))
      else (False, w))"
  by pat_completeness auto
termination
  by (relation "measure (\<lambda>(t, m, w). nat (m - t))") auto

definition wait_for_file_unlock :: "int \<Rightarrow> world \<Rightarrow> bool \<times> world" where
  "wait_for_file_unlock max_wait w = wait_loop 0 max_wait w"

section \<open>Reading and writing the workbook\<close>

definition read_excel :: "world \<Rightarrow> (error + dataframe) \<times> world" where
  "read_excel w =
     (let (denied, w1) = open_file w in
      if denied then (Inl (PermissionError ''[Errno 13] Permission denied''), w1)
      else (case disk w1 of
              None \<Rightarrow> (Inl (OtherException ''[Errno 2] No such file or directory''), w1)
            | Some (Garbage g) \<Rightarrow> (Inl (OtherException ''File is not a workbook''), w1)
            | Some (Workbook header body) \<Rightarrow> (Inr (parse_sheet header body), w1)))"

definition to_excel :: "dataframe \<Rightarrow> world \<Rightarrow> (error + unit) \<times> world" where
  "to_excel df w =
     (let (denied, w1) = open_file w in
      if denied then (Inl (PermissionError ''[Errno 13] Permission denied''), w1)
      else (Inr (), w1\<lparr>disk := Some (render_sheet df)\<rparr>))"

definition canonical_columns :: "string list" where
  "canonical_columns =
     [''Status'', ''Company'', ''Job Title'', ''Location'', ''Job Functions'',
      ''Date Applied'', ''URL'']"

text \<open>\<^verbatim>\<open>df['URL'] = ""\<close> on a frame without that column.\<close>

definition add_column :: "string \<Rightarrow> string \<Rightarrow> dataframe \<Rightarrow> dataframe" where
  "add_column name v df =
     \<lparr>columns = columns df @ [name], rows = map (\<lambda>r. r @ [Str v]) (rows df)\<rparr>"

text \<open>The tail of \<^verbatim>\<open>load_or_create_excel\<close>: a new frame with the expected columns.\<close>

definition create_new :: "world \<Rightarrow> (error + dataframe) \<times> world" where
  "create_new w =
     (Inr \<lparr>columns = canonical_columns, rows = []\<rparr>,
      logger INFO ''Created new Excel file structure'' w)"

definition cannot_access :: error where
  "cannot_access = PermissionError
     (''Cannot access Excel file. Please close '' @ [CHR 0x27] @ excel_file @ [CHR 0x27]
        @ '' in Excel and try again.'')"

definition locked_on_load :: error where
  "locked_on_load = PermissionError
     (''Excel file '' @ [CHR 0x27] @ excel_file @ [CHR 0x27]
        @ '' is locked. Please close it in Excel and try again.'')"

text \<open>
  \<^verbatim>\<open>load_or_create_excel\<close> in its three parts. First the lock check: the probe runs
  only when the path exists, and the result says whether the file is available (\<open>False\<close>:
  the wait timed out).
\<close>

definition wait_if_locked_on_load :: "world \<Rightarrow> bool \<times> world" where
  "wait_if_locked_on_load w0 =
     (if disk w0 \<noteq> None then
        (case is_file_locked w0 of
           (True, wa) \<Rightarrow>
             wait_for_file_unlock 30
               (logger INFO ''Please close the Excel file and try again, or wait for auto-unlock...''
                 (logger WARNING (''Excel file '' @ [CHR 0x27] @ excel_file @ [CHR 0x27]
                     @ '' is currently open/locked'') wa))
         | (False, wa) \<Rightarrow> (True, wa))
      else (True, w0))"

text \<open>The body of the \<^verbatim>\<open>try\<close>: read the workbook and add the \<open>URL\<close> column it lacks.\<close>

definition read_and_migrate :: "world \<Rightarrow> (error + dataframe) \<times> world" where
  "read_and_migrate w1 =
     (case read_excel w1 of
        (Inl e, w2) \<Rightarrow> (Inl e, w2)
      | (Inr df, w2) \<Rightarrow>
          (let w3 = logger INFO (''Loaded existing Excel file with ''
                      @ str_nat (length (rows df)) @ '' rows'') w2
           in if ''URL'' \<notin> set (columns df) then
                (case to_excel (add_column ''URL'' [] df)
                        (logger INFO ''Adding URL column to existing Excel file'' w3) of
                   (Inl e, w5) \<Rightarrow> (Inl e, w5)
                 | (Inr u, w5) \<Rightarrow>
                     (Inr (add_column ''URL'' [] df),
                      logger INFO ''Excel file updated with URL column'' w5))
              else (Inr df, w3)))"

text \<open>
  The two handlers: a \<^verbatim>\<open>PermissionError\<close> is raised again with a new text, any other
  exception is logged and the function goes on to create a new frame.
\<close>

definition on_load_error :: "(error + dataframe) \<times> world \<Rightarrow> (error + dataframe) \<times> world" where
  "on_load_error r =
     (case r of
        (Inl (PermissionError m), w) \<Rightarrow> (Inl cannot_access, w)
      | (Inl (OtherException m), w) \<Rightarrow>
          create_new (logger WARNING (''Error reading Excel file, creating new one: '' @ m) w)
      | (Inr df, w) \<Rightarrow> (Inr df, w))"

definition load_or_create_excel :: "world \<Rightarrow> (error + dataframe) \<times> world" where
  "load_or_create_excel w0 =
     (case wait_if_locked_on_load w0 of
        (False, w1) \<Rightarrow> (Inl locked_on_load, w1)
      | (True, w1) \<Rightarrow>
          if disk w1 \<noteq> None then on_load_error (read_and_migrate w1)
          else create_new w1)"

section \<open>Appending a record\<close>

text \<open>
  A record arrives as a dictionary from keys to texts (\<^verbatim>\<open>job_info\<close>);
  \<^verbatim>\<open>job_info.get(k, d)\<close> is \<open>dict_get\<close>.
\<close>

type_synonym job_info = "string \<rightharpoonup> string"

definition dict_get :: "job_info \<Rightarrow> string \<Rightarrow> string \<Rightarrow> string" where
  "dict_get d k dflt = (case d k of Some v \<Rightarrow> v | None \<Rightarrow> dflt)"

definition new_row :: "string \<Rightarrow> job_info \<Rightarrow> (string \<times> cell) list" where
  "new_row now job_info =
     [(''Status'', Str (dict_get job_info ''status'' ''Applied'')),
      (''Company'', Str (dict_get job_info ''company_name'' [])),
      (''Job Title'', Str (dict_get job_info ''position_title'' [])),
      (''Location'', Str (dict_get job_info ''location'' [])),
      (''Job Functions'', Str (dict_get job_info ''job_functions'' [])),
      (''Date Applied'', Str (dict_get job_info ''date_applied'' now)),
      (''URL'', Str (dict_get job_info ''url'' []))]"

text \<open>The cell of a row under a column name (the first column of that name).\<close>

definition cell_at :: "string list \<Rightarrow> 'a list \<Rightarrow> string \<Rightarrow> 'a option" where
  "cell_at cols r name = map_of (zip cols r) name"

text \<open>
  The rows selected by
  \<^verbatim>\<open>df[(df['Company'] == company) & (df['Job Title'] == title)]\<close>: a missing value
  equals no text.
\<close>

definition duplicate_check :: "dataframe \<Rightarrow> string \<Rightarrow> string \<Rightarrow> cell list list" where
  "duplicate_check df company title =
     filter (\<lambda>r. cell_at (columns df) r ''Company'' = Some (Str company)
               \<and> cell_at (columns df) r ''Job Title'' = Some (Str title)) (rows df)"

text \<open>
  \<^verbatim>\<open>pd.concat([df, pd.DataFrame([new_row])], ignore_index=True)\<close>: the columns of
  \<open>df\<close>, then the keys of the new row that \<open>df\<close> lacks; a cell nobody gave is missing.
\<close>

definition concat_row :: "dataframe \<Rightarrow> (string \<times> cell) list \<Rightarrow> dataframe" where
  "concat_row df nr =
     (let extra = filter (\<lambda>k. k \<notin> set (columns df)) (map fst nr);
          cols = columns df @ extra
      in \<lparr>columns = cols,
          rows = map (\<lambda>r. r @ replicate (length extra) NaN) (rows df)
                 @ [map (\<lambda>c. case map_of nr c of Some v \<Rightarrow> v | None \<Rightarrow> NaN) cols]\<rparr>)"

definition max_retries :: nat where
  "max_retries = 3"

definition cannot_save :: error where
  "cannot_save = PermissionError
     (''Cannot save to Excel file after '' @ str_nat max_retries @ '' attempts. Please close ''
        @ [CHR 0x27] @ excel_file @ [CHR 0x27] @ '' in Excel.'')"

text \<open>
  The loop \<^verbatim>\<open>for attempt in range(max_retries)\<close> around \<^verbatim>\<open>df.to_excel\<close>, over the
  attempts still to make. After a refused attempt that is not the last it waits up to 10
  seconds and goes on to the next attempt whatever the wait returned.
\<close>

fun save_attempts :: "nat list \<Rightarrow> dataframe \<Rightarrow> world \<Rightarrow> (error + bool) \<times> world" where
  "save_attempts [] df w = (Inr True, w)"
| "save_attempts (attempt # rest) df w =
     (case to_excel df w of
        (Inr u, w1) \<Rightarrow>
          (Inr True, logger INFO (''Successfully added job to Excel file. Total rows: ''
                         @ str_nat (length (rows df))) w1)
      | (Inl (PermissionError m), w1) \<Rightarrow>
          (if attempt < max_retries - 1 then
             (case wait_for_file_unlock 10
                     (logger WARNING (''Permission denied on attempt '' @ str_nat (attempt + 1)
                         @ '', retrying...'') w1) of
                (b, w2) \<Rightarrow> save_attempts rest df w2)
           else (Inl cannot_save, w1))
      | (Inl (OtherException m), w1) \<Rightarrow> (Inl (OtherException m), w1))"

definition cannot_write :: error where
  "cannot_write = PermissionError
     (''Cannot write to Excel file. Please close '' @ [CHR 0x27] @ excel_file @ [CHR 0x27]
        @ '' in Excel and try again.'')"

text \<open>
  The outer handlers of \<^verbatim>\<open>append_to_excel\<close>: a \<^verbatim>\<open>PermissionError\<close> is raised
  again as it is, any other exception is logged and raised again.
\<close>

definition reraise :: "string \<Rightarrow> ((error + 'a) \<times> world) \<Rightarrow> ((error + 'a) \<times> world)" where
  "reraise what r =
     (case r of
        (Inl (OtherException m), w) \<Rightarrow> (Inl (OtherException m), logger ERROR (what @ m) w)
      | other \<Rightarrow> other)"

definition wait_if_locked_on_append :: "world \<Rightarrow> bool \<times> world" where
  "wait_if_locked_on_append w0 =
     (if disk w0 \<noteq> None then
        (case is_file_locked w0 of
           (True, wa) \<Rightarrow>
             wait_for_file_unlock 30
               (logger WARNING (''Excel file '' @ [CHR 0x27] @ excel_file @ [CHR 0x27]
                   @ '' is currently open/locked'') wa)
         | (False, wa) \<Rightarrow> (True, wa))
      else (True, w0))"

text \<open>The part of \<^verbatim>\<open>append_to_excel\<close> after the table is loaded.\<close>

definition append_row :: "job_info \<Rightarrow> dataframe \<Rightarrow> world \<Rightarrow> (error + bool) \<times> world" where
  "append_row job_info df w2 =
     (let row = new_row (today w2) job_info;
          company = dict_get job_info ''company_name'' [];
          title = dict_get job_info ''position_title'' []
      in if \<not> df_empty df \<and> ''Company'' \<in> set (columns df)
              \<and> ''Job Title'' \<in> set (columns df)
              \<and> duplicate_check df company title \<noteq> []
         then (Inr False,
               logger WARNING (''Similar job already exists: ''
                   @ dict_get job_info ''company_name'' ''None'' @ '' - ''
                   @ dict_get job_info ''position_title'' ''None'') w2)
         else save_attempts [0 ..< max_retries] (concat_row df row) w2)"

definition append_to_excel :: "job_info \<Rightarrow> world \<Rightarrow> (error + bool) \<times> world" where
  "append_to_excel job_info w0 =
     reraise ''Error appending to Excel: ''
     (case wait_if_locked_on_append w0 of
        (False, w1) \<Rightarrow> (Inl cannot_write, w1)
      | (True, w1) \<Rightarrow>
          (case load_or_create_excel w1 of
             (Inl e, w2) \<Rightarrow> (Inl e, w2)
           | (Inr df, w2) \<Rightarrow> append_row job_info df w2))"

section \<open>Editing rows\<close>

record result =
  success :: bool
  message :: string

definition failure :: "string \<Rightarrow> result" where
  "failure m = \<lparr>success = False, message = m\<rparr>"

definition out_of_range :: "int \<Rightarrow> nat \<Rightarrow> string" where
  "out_of_range row_number n =
     ''Row number '' @ str_int row_number @ '' is out of range. Valid range: 1-'' @ str_nat n"

text \<open>\<^verbatim>\<open>df.columns.get_loc(name)\<close>: the position of the column, a \<^verbatim>\<open>KeyError\<close> without it.\<close>

definition get_loc :: "string list \<Rightarrow> string \<Rightarrow> error + nat" where
  "get_loc cols name =
     (if name \<in> set cols then Inr (length (takeWhile (\<lambda>c. c \<noteq> name) cols))
      else Inl (OtherException ([CHR 0x27] @ name @ [CHR 0x27])))"

text \<open>
  The lock check that opens \<^verbatim>\<open>update_row_status\<close> and \<^verbatim>\<open>delete_row\<close>: the probe
  runs whether or not the path exists.
\<close>

definition unlocked_or_waited :: "world \<Rightarrow> bool \<times> world" where
  "unlocked_or_waited w =
     (case is_file_locked w of
        (True, w1) \<Rightarrow> wait_for_file_unlock 30 w1
      | (False, w1) \<Rightarrow> (True, w1))"

definition update_failed :: "error \<Rightarrow> world \<Rightarrow> result \<times> world" where
  "update_failed e w =
     (failure (''Failed to update row status: '' @ str_error e),
      logger ERROR (''Error updating row status: '' @ str_error e) w)"

definition update_row_status :: "int \<Rightarrow> string \<Rightarrow> world \<Rightarrow> result \<times> world" where
  "update_row_status row_number new_status w0 =
     (case unlocked_or_waited w0 of
        (False, w1) \<Rightarrow> (failure ''Excel file is locked. Please close it and try again.'', w1)
      | (True, w1) \<Rightarrow>
          (case load_or_create_excel w1 of
             (Inl e, w2) \<Rightarrow> update_failed e w2
           | (Inr df, w2) \<Rightarrow>
               if df_empty df then (failure ''No data found in Excel file.'', w2)
               else if row_number < 1 \<or> row_number > int (length (rows df))
               then (failure (out_of_range row_number (length (rows df))), w2)
               else
                 (case get_loc (columns df) ''Status'' of
                    Inl e \<Rightarrow> update_failed e w2
                  | Inr j \<Rightarrow>
                      (let i = nat (row_number - 1);
                           df' = df\<lparr>rows := (rows df)[i := (rows df ! i)[j := Str new_status]]\<rparr>
                       in case to_excel df' w2 of
                            (Inl e, w3) \<Rightarrow> update_failed e w3
                          | (Inr u, w3) \<Rightarrow>
                              (\<lparr>success = True,
                                message = ''Row '' @ str_int row_number @ '' status updated to ''
                                   @ [CHR 0x27] @ new_status @ [CHR 0x27]\<rparr>,
                               logger INFO (''Updated row '' @ str_int row_number
                                   @ '' status to '' @ new_status) w3)))))"

text \<open>How an f-string prints a cell: a missing value prints as \<open>nan\<close>.\<close>

definition format_cell :: "cell \<Rightarrow> string" where
  "format_cell c = (case c of Str s \<Rightarrow> s | NaN \<Rightarrow> ''nan'')"

text \<open>\<^verbatim>\<open>row_info.get(key, default)\<close> on a row of the frame, already printed.\<close>

definition series_get :: "string list \<Rightarrow> cell list \<Rightarrow> string \<Rightarrow> string \<Rightarrow> string" where
  "series_get cols r key dflt =
     (case cell_at cols r key of Some c \<Rightarrow> format_cell c | None \<Rightarrow> dflt)"

definition delete_failed :: "error \<Rightarrow> world \<Rightarrow> result \<times> world" where
  "delete_failed e w =
     (failure (''Failed to delete row: '' @ str_error e),
      logger ERROR (''Error deleting row: '' @ str_error e) w)"

definition delete_row :: "int \<Rightarrow> world \<Rightarrow> result \<times> world" where
  "delete_row row_number w0 =
     (case unlocked_or_waited w0 of
        (False, w1) \<Rightarrow> (failure ''Excel file is locked. Please close it and try again.'', w1)
      | (True, w1) \<Rightarrow>
          (case load_or_create_excel w1 of
             (Inl e, w2) \<Rightarrow> delete_failed e w2
           | (Inr df, w2) \<Rightarrow>
               if df_empty df then (failure ''No data found in Excel file.'', w2)
               else if row_number < 1 \<or> row_number > int (length (rows df))
               then (failure (out_of_range row_number (length (rows df))), w2)
               else
                 (let i = nat (row_number - 1);
                      row_info = rows df ! i;
                      company = series_get (columns df) row_info ''Company''
                                  (series_get (columns df) row_info ''Company Name'' ''Unknown'');
                      job_title = series_get (columns df) row_info ''Job Title''
                                  (series_get (columns df) row_info ''Position Title'' ''Unknown'');
                      df' = df\<lparr>rows := take i (rows df) @ drop (Suc i) (rows df)\<rparr>;
                      text = ''Deleted row '' @ str_int row_number @ '': '' @ company
                               @ '' - '' @ job_title
                  in case to_excel df' w2 of
                       (Inl e, w3) \<Rightarrow> delete_failed e w3
                     | (Inr u, w3) \<Rightarrow>
                         (\<lparr>success = True, message = text\<rparr>, logger INFO text w3))))"

section \<open>The extraction pipeline\<close>

text \<open>
  What \<^verbatim>\<open>json.loads\<close> returns: a dictionary, or some other JSON value (a number, a
  text, a list), on which \<^verbatim>\<open>job_info["url"] = ...\<close> raises a \<^verbatim>\<open>TypeError\<close>.
\<close>

datatype json = JObject job_info | JOther

text \<open>
  The collaborators of a \<^verbatim>\<open>JobExtractor\<close>, taken as parameters: the prompt template
  it loaded, the page fetch (\<^verbatim>\<open>requests.get(...).text\<close> or the exception raised), the
  model call (\<^verbatim>\<open>response.text\<close>, which is \<open>None\<close> for a response without text, or the
  exception raised) and the JSON parser (\<open>None\<close> for a \<^verbatim>\<open>JSONDecodeError\<close>).
\<close>

record services =
  prompt_template :: string
  requests_get :: "string \<Rightarrow> error + string"
  generate_content :: "string \<Rightarrow> error + string option"
  json_loads :: "string \<Rightarrow> json option"

definition fetch_webpage_content :: "services \<Rightarrow> string \<Rightarrow> world \<Rightarrow> (error + string) \<times> world" where
  "fetch_webpage_content sv url w =
     (case requests_get sv url of
        Inl e \<Rightarrow> (Inl e, logger ERROR (''Error fetching webpage: '' @ str_error e) w)
      | Inr page \<Rightarrow> (Inr page, w))"

text \<open>\<^verbatim>\<open>str.strip()\<close>, \<^verbatim>\<open>startswith\<close> and \<^verbatim>\<open>endswith\<close> on ASCII text.\<close>

definition is_space :: "char \<Rightarrow> bool" where
  "is_space c = (c \<in> set [CHR 0x09, CHR 0x0A, CHR 0x0B, CHR 0x0C, CHR 0x0D,
                           CHR 0x1C, CHR 0x1D, CHR 0x1E, CHR 0x1F, CHR 0x20])"

definition strip :: "string \<Rightarrow> string" where
  "strip s = rev (dropWhile is_space (rev (dropWhile is_space s)))"

definition startswith :: "string \<Rightarrow> string \<Rightarrow> bool" where
  "startswith s p = (take (length p) s = p)"

definition endswith :: "string \<Rightarrow> string \<Rightarrow> bool" where
  "endswith s p = (length p \<le> length s \<and> drop (length s - length p) s = p)"

definition fence :: string where
  "fence = [CHR 0x60, CHR 0x60, CHR 0x60]"

text \<open>The cleaning of the response text before \<^verbatim>\<open>json.loads\<close>.\<close>

definition clean_response :: "string \<Rightarrow> string" where
  "clean_response response_text =
     (let t0 = strip response_text;
          t1 = (if startswith t0 (fence @ ''json'') then drop 7 t0 else t0);
          t2 = (if endswith t1 fence then take (length t1 - 3) t1 else t1)
      in strip t2)"

definition fallback_extraction :: "string \<Rightarrow> string \<Rightarrow> string \<Rightarrow> job_info" where
  "fallback_extraction url response_text now =
     map_of [(''status'', ''Applied''),
             (''company_name'', ''Could not extract''),
             (''position_title'', ''Could not extract''),
             (''location'', ''Could not extract''),
             (''job_functions'', ''Could not extract''),
             (''date_applied'', now)]"

definition full_prompt :: "string \<Rightarrow> string \<Rightarrow> string \<Rightarrow> string \<Rightarrow> string" where
  "full_prompt prompt url webpage_content now =
     (let nl = [CHR 0x0A]; q = [CHR 0x22] in
      nl @ prompt @ nl @ nl @ ''URL: '' @ url @ nl @ nl @ ''Webpage Content:'' @ nl
      @ take 10000 webpage_content @ ''  # Limit content to avoid token limits'' @ nl @ nl
      @ ''Please extract the information in the following JSON format:'' @ nl
      @ ''{'' @ nl
      @ ''    '' @ q @ ''status'' @ q @ '': '' @ q @ ''Applied'' @ q @ '','' @ nl
      @ ''    '' @ q @ ''company_name'' @ q @ '': '' @ q @ ''Company'' @ q @ '','' @ nl
      @ ''    '' @ q @ ''position_title'' @ q @ '': '' @ q @ ''Job Title'' @ q @ '', '' @ nl
      @ ''    '' @ q @ ''location'' @ q @ '': '' @ q @ ''Location'' @ q @ '','' @ nl
      @ ''    '' @ q @ ''job_functions'' @ q @ '': '' @ q @ ''Job Functions'' @ q @ '','' @ nl
      @ ''    '' @ q @ ''date_applied'' @ q @ '': '' @ q @ now @ q @ nl
      @ ''}'' @ nl @ nl
      @ ''Only return the JSON, no additional text.'' @ nl)"

text \<open>\<^verbatim>\<open>custom_prompt or self.prompt_template\<close>: \<open>None\<close> and the empty text are falsy.\<close>

definition prompt_or_template :: "services \<Rightarrow> string option \<Rightarrow> string" where
  "prompt_or_template sv custom_prompt =
     (case custom_prompt of
        None \<Rightarrow> prompt_template sv
      | Some p \<Rightarrow> if p = [] then prompt_template sv else p)"

text \<open>A handler that logs whatever exception passes and raises it again.\<close>

definition log_and_raise :: "string \<Rightarrow> ((error + 'a) \<times> world) \<Rightarrow> ((error + 'a) \<times> world)" where
  "log_and_raise what r =
     (case r of
        (Inl e, w) \<Rightarrow> (Inl e, logger ERROR (what @ str_error e) w)
      | other \<Rightarrow> other)"

text \<open>
  \<^verbatim>\<open>extract_job_info\<close>: the inner \<^verbatim>\<open>try\<close> catches the \<^verbatim>\<open>JSONDecodeError\<close>
  only; the outer one logs every exception and raises it again.
\<close>

definition extract_job_info ::
  "services \<Rightarrow> string \<Rightarrow> string option \<Rightarrow> world \<Rightarrow> (error + json) \<times> world" where
  "extract_job_info sv url custom_prompt w0 =
     log_and_raise ''Error extracting job info: ''
     (case fetch_webpage_content sv url (logger INFO (''Fetching content from: '' @ url) w0) of
        (Inl e, w1) \<Rightarrow> (Inl e, w1)
      | (Inr webpage_content, w1) \<Rightarrow>
          (let prompt = prompt_or_template sv custom_prompt;
               w2 = logger INFO ''Sending request to Gemini API...'' w1
           in case generate_content sv (full_prompt prompt url webpage_content (today w1)) of
                Inl e \<Rightarrow> (Inl e, w2)
              | Inr None \<Rightarrow>
                  (Inl (OtherException
                     ([CHR 0x27] @ ''NoneType'' @ [CHR 0x27] @ '' object has no attribute ''
                        @ [CHR 0x27] @ ''strip'' @ [CHR 0x27])), w2)
              | Inr (Some response_text) \<Rightarrow>
                  (case json_loads sv (clean_response response_text) of
                     Some job_info \<Rightarrow>
                       (Inr job_info, logger INFO ''Successfully extracted job information'' w2)
                   | None \<Rightarrow>
                       (Inr (JObject (fallback_extraction url response_text (today w2))),
                        logger ERROR (''Response text: '' @ response_text)
                          (logger ERROR ''Failed to parse JSON response'' w2)))))"

record process_result = result +
  job_info_key :: "json option"
  error_key :: "string option"

definition process_failed :: "error \<Rightarrow> world \<Rightarrow> process_result \<times> world" where
  "process_failed e w =
     (\<lparr>success = False, message = ''Failed to process job URL'',
       job_info_key = None, error_key = Some (str_error e)\<rparr>,
      logger ERROR (''Error processing job URL: '' @ str_error e) w)"

text \<open>
  \<^verbatim>\<open>process_job_url\<close>: everything runs inside \<^verbatim>\<open>try ... except Exception\<close>, whose
  handler builds the failure dictionary.
\<close>

definition process_job_url ::
  "services \<Rightarrow> string \<Rightarrow> string option \<Rightarrow> world \<Rightarrow> process_result \<times> world" where
  "process_job_url sv url custom_prompt w0 =
     (case extract_job_info sv url custom_prompt w0 of
        (Inl e, w1) \<Rightarrow> process_failed e w1
      | (Inr JOther, w1) \<Rightarrow>
          process_failed (OtherException ''object does not support item assignment'') w1
      | (Inr (JObject d), w1) \<Rightarrow>
          (let job_info = d(''url'' \<mapsto> (if url \<noteq> [] then url else []))
           in case append_to_excel job_info w1 of
                (Inl e, w2) \<Rightarrow> process_failed e w2
              | (Inr added, w2) \<Rightarrow>
                  (\<lparr>success = added,
                    message = (if added then ''Job information extracted and added to spreadsheet''
                               else ''URL already exists in spreadsheet''),
                    job_info_key = Some (JObject job_info), error_key = None\<rparr>, w2)))"

section \<open>Sample worlds and records\<close>

text \<open>A first run: no workbook yet, nobody holding it.\<close>

definition w_fresh :: world where
  "w_fresh = \<lparr>disk = None, denials = [], slept = 0, today = ''2025-08-27'', logged = []\<rparr>"

text \<open>A model that answers in prose, which no JSON parser accepts.\<close>

definition sv_prose :: services where
  "sv_prose = \<lparr>prompt_template = ''Extract the job'',
               requests_get = (\<lambda>u. Inr ''<html>A job</html>''),
               generate_content = (\<lambda>p. Inr (Some ''I could not open that page.'')),
               json_loads = (\<lambda>t. None)\<rparr>"

text \<open>A workbook written before the \<open>URL\<close> column existed, with one application.\<close>

definition old_header :: "string list" where
  "old_header = [''Status'', ''Company'', ''Job Title'', ''Location'', ''Job Functions'', ''Date Applied'']"

definition w_old :: world where
  "w_old = \<lparr>disk = Some (Workbook old_header
                [[''Applied'', ''Acme'', ''Engineer'', ''Remote'', ''Backend'', ''2025-01-01'']]),
            denials = [], slept = 0, today = ''2025-08-27'', logged = []\<rparr>"


text \<open>A complete record with an empty URL, and a record whose company is the empty text.\<close>

definition job_empty_url :: job_info where
  "job_empty_url = map_of [(''status'', ''Applied''), (''company_name'', ''Acme''),
     (''position_title'', ''Engineer''), (''location'', ''Remote''),
     (''job_functions'', ''Backend''), (''date_applied'', ''2025-01-01''), (''url'', [])]"

definition job_no_company :: job_info where
  "job_no_company = map_of [(''status'', ''Applied''), (''company_name'', []),
     (''position_title'', ''Engineer''), (''location'', ''Remote''),
     (''job_functions'', ''Backend''), (''date_applied'', ''2025-01-01''),
     (''url'', ''https://acme.example/job'')]"

text \<open>A page fetch that fails.\<close>

definition sv_down :: services where
  "sv_down = \<lparr>prompt_template = ''Extract the job'',
              requests_get = (\<lambda>u. Inl (OtherException ''Connection refused'')),
              generate_content = (\<lambda>p. Inr (Some ''{}'')),
              json_loads = (\<lambda>t. None)\<rparr>"

text \<open>
  A file that is not a workbook: once with nobody holding it, once with the probe granted
  and the open that follows refused (the spreadsheet program took the file in between).
\<close>

definition w_race :: world where
  "w_race = \<lparr>disk = Some (Garbage ''not a workbook''), denials = [False, True], slept = 0,
             today = ''2025-08-27'', logged = []\<rparr>"

definition w_corrupt :: world where
  "w_corrupt = \<lparr>disk = Some (Garbage ''not a workbook''), denials = [], slept = 0,
             today = ''2025-08-27'', logged = []\<rparr>"

text \<open>A workbook with two applications, and one with the header only.\<close>

definition sample_rows :: "string list list" where
  "sample_rows =
     [[''Applied'', ''Acme'', ''Engineer'', ''Remote'', ''Backend'', ''2025-01-01'',
       ''https://acme.example/job''],
      [''Applied'', ''Initech'', ''Analyst'', ''Austin'', ''Reports'', ''2025-01-02'', []]]"

definition w_two :: world where
  "w_two = \<lparr>disk = Some (Workbook canonical_columns sample_rows), denials = [], slept = 0,
            today = ''2025-08-27'', logged = []\<rparr>"

definition w_no_rows :: world where
  "w_no_rows = \<lparr>disk = Some (Workbook canonical_columns []), denials = [], slept = 0,
            today = ''2025-08-27'', logged = []\<rparr>"

section \<open>Basic facts\<close>

text \<open>The two loops are unfolded on demand only.\<close>

declare str_nat.simps [simp del]

declare wait_loop.simps [simp del]

lemma logger_fields [simp]:
  "disk (logger l m w) = disk w" "denials (logger l m w) = denials w"
  "slept (logger l m w) = slept w" "today (logger l m w) = today w"
  by (simp_all add: logger_def)

lemma write_read_cell [simp]: "write_cell (read_cell s) = s"
  by (simp add: write_cell_def read_cell_def)

lemma fit_same_width: "length cs = n \<Longrightarrow> fit n cs = cs"
  by (simp add: fit_def)

lemma sleep_fields [simp]:
  "disk (sleep n w) = disk w" "denials (sleep n w) = denials w"
  "today (sleep n w) = today w" "slept (sleep n w) = slept w + n"
  by (simp_all add: sleep_def)

subsection \<open>What the operations leave alone\<close>

lemma open_file_today [simp]: "today (snd (open_file w)) = today w"
  by (simp add: open_file_def split: list.split)

lemma is_file_locked_today [simp]: "today (snd (is_file_locked w)) = today w"
  by (simp add: is_file_locked_def case_prod_unfold Let_def)

lemma wait_loop_invariant:
  assumes probe: "\<And>w. I w \<Longrightarrow> I (snd (is_file_locked w))"
    and pause: "\<And>w l msg. I w \<Longrightarrow> I (sleep 2 (logger l msg w))"
    and start: "I w"
  shows "I (snd (wait_loop t m w))"
  using start
proof (induction t m w rule: wait_loop.induct)
  case (1 t m w)
  show ?case
  proof (cases "t < m \<and> fst (is_file_locked w)")
    case True
    have next_world: "I (sleep 2 (logger INFO (''File is locked, waiting... ('' @ str_int t
                    @ ''s/'' @ str_int m @ ''s)'') (snd (is_file_locked w))))"
      using "1.prems" probe pause by blast
    have "I (snd (wait_loop (t + 2) m
        (sleep 2 (logger INFO (''File is locked, waiting... ('' @ str_int t
                    @ ''s/'' @ str_int m @ ''s)'') (snd (is_file_locked w))))))"
      using True next_world "1.IH" [of True "snd (is_file_locked w)"]
      by (cases "is_file_locked w") simp
    moreover have "wait_loop t m w = wait_loop (t + 2) m
        (sleep 2 (logger INFO (''File is locked, waiting... ('' @ str_int t
                    @ ''s/'' @ str_int m @ ''s)'') (snd (is_file_locked w))))"
      using True by (subst wait_loop.simps) (simp add: case_prod_unfold split: bool.split)
    ultimately show ?thesis by simp
  next
    case False
    then show ?thesis
      using "1.prems" probe [OF "1.prems"]
      by (subst wait_loop.simps) (auto simp: case_prod_unfold split: bool.split)
  qed
qed

lemma wait_loop_today [simp]: "today (snd (wait_loop t m w)) = today w"
  by (rule wait_loop_invariant [where I = "\<lambda>v. today v = today w"]) simp_all

lemma wait_for_file_unlock_today [simp]: "today (snd (wait_for_file_unlock m w)) = today w"
  by (simp add: wait_for_file_unlock_def)

lemma read_excel_today [simp]: "today (snd (read_excel w)) = today w"
  by (simp add: read_excel_def case_prod_unfold Let_def split: option.split file_content.split)

lemma to_excel_today [simp]: "today (snd (to_excel df w)) = today w"
  by (simp add: to_excel_def case_prod_unfold Let_def)

lemma create_new_today [simp]: "today (snd (create_new w)) = today w"
  by (simp add: create_new_def)

lemma wait_if_locked_on_load_today [simp]: "today (snd (wait_if_locked_on_load w)) = today w"
  by (simp add: wait_if_locked_on_load_def case_prod_unfold split: bool.split)

lemma read_and_migrate_today [simp]: "today (snd (read_and_migrate w)) = today w"
  by (simp add: read_and_migrate_def case_prod_unfold Let_def split: sum.split)

lemma on_load_error_today [simp]: "today (snd (on_load_error r)) = today (snd r)"
  by (simp add: on_load_error_def case_prod_unfold split: sum.split error.split)

lemma load_today [simp]: "today (snd (load_or_create_excel w)) = today w"
  by (simp add: load_or_create_excel_def case_prod_unfold split: bool.split)

lemma wait_if_locked_on_append_today [simp]: "today (snd (wait_if_locked_on_append w)) = today w"
  by (simp add: wait_if_locked_on_append_def case_prod_unfold split: bool.split)

section \<open>The fallback record\<close>



subsection \<open>When nobody holds the file\<close>

lemma open_file_granted: "denials w = [] \<Longrightarrow> open_file w = (False, w)"
  by (simp add: open_file_def)

lemma is_file_locked_granted:
  "denials w = [] \<Longrightarrow> disk w \<noteq> None \<Longrightarrow> is_file_locked w = (False, w)"
  by (simp add: is_file_locked_def open_file_granted)

lemma read_excel_workbook:
  "denials w = [] \<Longrightarrow> disk w = Some (Workbook h b) \<Longrightarrow> read_excel w = (Inr (parse_sheet h b), w)"
  by (simp add: read_excel_def open_file_granted)

lemma read_excel_garbage:
  "denials w = [] \<Longrightarrow> disk w = Some (Garbage g)
     \<Longrightarrow> read_excel w = (Inl (OtherException ''File is not a workbook''), w)"
  by (simp add: read_excel_def open_file_granted)

lemma to_excel_granted:
  "denials w = [] \<Longrightarrow> to_excel df w = (Inr (), w\<lparr>disk := Some (render_sheet df)\<rparr>)"
  by (simp add: to_excel_def open_file_granted)

lemma columns_parse_sheet [simp]: "columns (parse_sheet h b) = h"
  by (simp add: parse_sheet_def)

lemma load_workbook:
  assumes "denials w = []" and "disk w = Some (Workbook h b)" and "''URL'' \<in> set h"
  shows "load_or_create_excel w =
           (Inr (parse_sheet h b),
            logger INFO (''Loaded existing Excel file with ''
               @ str_nat (length (rows (parse_sheet h b))) @ '' rows'') w)"
  using assms
  by (simp add: load_or_create_excel_def wait_if_locked_on_load_def read_and_migrate_def
      on_load_error_def is_file_locked_granted read_excel_workbook Let_def)

lemma load_migrates:
  assumes "denials w = []" and "disk w = Some (Workbook h b)" and "''URL'' \<notin> set h"
  shows "fst (load_or_create_excel w) = Inr (add_column ''URL'' [] (parse_sheet h b))"
    and "disk (snd (load_or_create_excel w))
           = Some (render_sheet (add_column ''URL'' [] (parse_sheet h b)))"
    and "denials (snd (load_or_create_excel w)) = []"
    and "today (snd (load_or_create_excel w)) = today w"
  using assms
  by (simp_all add: load_or_create_excel_def wait_if_locked_on_load_def read_and_migrate_def
      on_load_error_def is_file_locked_granted read_excel_workbook to_excel_granted Let_def)

lemma load_absent:
  assumes "disk w = None"
  shows "load_or_create_excel w = create_new w"
  using assms by (simp add: load_or_create_excel_def wait_if_locked_on_load_def)

lemma load_garbage:
  assumes "denials w = []" and "disk w = Some (Garbage g)"
  shows "load_or_create_excel w =
     create_new (logger WARNING (''Error reading Excel file, creating new one: '' @ ''File is not a workbook'') w)"
  using assms
  by (simp add: load_or_create_excel_def wait_if_locked_on_load_def read_and_migrate_def
      on_load_error_def is_file_locked_granted read_excel_garbage Let_def)

section \<open>The migration of old workbooks\<close>

text \<open>
  Claim C7. On a workbook without the \<open>URL\<close> column that nobody holds, the first
  \<open>load_or_create_excel\<close> returns the table with \<open>URL\<close> added as last column, once,
  every row holding the empty text there, and has written that shape to the file before it
  returns: header plus \<open>URL\<close>, every row plus an empty cell. The second and the third
  load find \<open>URL\<close> in the header, return the same columns and leave the file as the
  first load wrote it.
\<close>

theorem migration_once:
  assumes "disk w = Some (Workbook h b)" and "''URL'' \<notin> set h" and "denials w = []"
    and "w1 = snd (load_or_create_excel w)"
    and "w2 = snd (load_or_create_excel w1)"
    and "w3 = snd (load_or_create_excel w2)"
    and "b1 = map (\<lambda>r. map write_cell (fit (length h) (map read_cell r)) @ [[]]) b"
  shows "fst (load_or_create_excel w) = Inr (add_column ''URL'' [] (parse_sheet h b))
       \<and> columns (add_column ''URL'' [] (parse_sheet h b)) = h @ [''URL'']
       \<and> count_list (h @ [''URL'']) ''URL'' = 1
       \<and> (\<forall>r \<in> set (rows (add_column ''URL'' [] (parse_sheet h b))). last r = Str [])
       \<and> disk w1 = Some (Workbook (h @ [''URL'']) b1)
       \<and> fst (load_or_create_excel w1) = Inr (parse_sheet (h @ [''URL'']) b1)
       \<and> disk w2 = disk w1
       \<and> fst (load_or_create_excel w2) = Inr (parse_sheet (h @ [''URL'']) b1)
       \<and> disk w3 = disk w1"
proof -
  let ?df = "add_column ''URL'' [] (parse_sheet h b)"
  have first: "fst (load_or_create_excel w) = Inr ?df"
    and d1: "disk w1 = Some (render_sheet ?df)" and g1: "denials w1 = []"
    using load_migrates [OF assms(3) assms(1) assms(2)] assms(4) by simp_all
  have sheet: "render_sheet ?df = Workbook (h @ [''URL'']) b1"
    by (simp add: render_sheet_def add_column_def parse_sheet_def assms(7) write_cell_def)
  have url: "''URL'' \<in> set (h @ [''URL''])" by simp
  have d1': "disk w1 = Some (Workbook (h @ [''URL'']) b1)" using d1 sheet by simp
  have second: "load_or_create_excel w1 = (Inr (parse_sheet (h @ [''URL'']) b1),
      logger INFO (''Loaded existing Excel file with ''
               @ str_nat (length (rows (parse_sheet (h @ [''URL'']) b1))) @ '' rows'') w1)"
    by (rule load_workbook [OF g1 d1' url])
  have d2: "disk w2 = disk w1" and g2: "denials w2 = []"
    using second assms(5) g1 by simp_all
  have d2': "disk w2 = Some (Workbook (h @ [''URL'']) b1)" using d2 d1' by simp
  have third: "load_or_create_excel w2 = (Inr (parse_sheet (h @ [''URL'']) b1),
      logger INFO (''Loaded existing Excel file with ''
               @ str_nat (length (rows (parse_sheet (h @ [''URL'']) b1))) @ '' rows'') w2)"
    by (rule load_workbook [OF g2 d2' url])
  have d3: "disk w3 = disk w1" using third assms(6) d2 by simp
  have cols: "columns ?df = h @ [''URL'']" by (simp add: add_column_def)
  have cnt: "count_list (h @ [''URL'']) ''URL'' = 1"
    using assms(2) by (simp add: count_list_0_iff)
  have filled: "\<forall>r \<in> set (rows ?df). last r = Str []"
    by (auto simp: add_column_def)
  show ?thesis
    using first cols cnt filled d1' second d2 third d3 by simp
qed

theorem migration_once_witness:
  "disk w_old = Some (Workbook old_header
       [[''Applied'', ''Acme'', ''Engineer'', ''Remote'', ''Backend'', ''2025-01-01'']])
   \<and> ''URL'' \<notin> set old_header \<and> denials w_old = []
   \<and> disk (snd (load_or_create_excel w_old)) = Some (Workbook (old_header @ [''URL''])
       [[''Applied'', ''Acme'', ''Engineer'', ''Remote'', ''Backend'', ''2025-01-01'', '''']])
   \<and> disk (snd (load_or_create_excel (snd (load_or_create_excel w_old))))
        = disk (snd (load_or_create_excel w_old))
   \<and> disk (snd (load_or_create_excel (snd (load_or_create_excel (snd (load_or_create_excel w_old))))))
        = disk (snd (load_or_create_excel w_old))"
proof -
  have h1: "disk w_old = Some (Workbook old_header
       [[''Applied'', ''Acme'', ''Engineer'', ''Remote'', ''Backend'', ''2025-01-01'']])"
    by (simp add: w_old_def)
  have h2: "''URL'' \<notin> set old_header" by (simp add: old_header_def)
  have h3: "denials w_old = []" by (simp add: w_old_def)
  show ?thesis
    using migration_once [OF h1 h2 h3 refl refl refl refl] h1 h2 h3
    by (simp add: fit_def read_cell_def write_cell_def old_header_def)
qed

section \<open>Appending: what is written\<close>

lemma to_excel_written:
  "fst (to_excel df w) = Inr u \<Longrightarrow> disk (snd (to_excel df w)) = Some (render_sheet df)"
  by (simp add: to_excel_def case_prod_unfold Let_def split: if_splits)

lemma to_excel_error:
  "fst (to_excel df w) = Inl e \<Longrightarrow> e = PermissionError ''[Errno 13] Permission denied''"
  by (auto simp add: to_excel_def case_prod_unfold Let_def split: if_splits)

lemma save_attempts_written_gen:
  "attempts \<noteq> [] \<Longrightarrow> max_retries - 1 \<le> last attempts
     \<Longrightarrow> save_attempts attempts df w = (Inr True, w')
     \<Longrightarrow> disk w' = Some (render_sheet df)"
proof (induction attempts arbitrary: w)
  case Nil
  then show ?case by simp
next
  case (Cons attempt rest)
  show ?case
  proof (cases "fst (to_excel df w)")
    case (Inr u)
    with Cons.prems(3) to_excel_written [OF Inr] show ?thesis
      by (auto simp: case_prod_unfold)
  next
    case (Inl e)
    then have e: "e = PermissionError ''[Errno 13] Permission denied''" by (rule to_excel_error)
    show ?thesis
    proof (cases "attempt < max_retries - 1")
      case True
      with Cons.prems(2) have rest: "rest \<noteq> []" "max_retries - 1 \<le> last rest"
        by (auto split: if_splits)
      from Cons.prems(3) Inl e True
      have "save_attempts rest df (snd (wait_for_file_unlock 10
                     (logger WARNING (''Permission denied on attempt '' @ str_nat (attempt + 1)
                         @ '', retrying...'') (snd (to_excel df w))))) = (Inr True, w')"
        by (simp add: case_prod_unfold)
      from Cons.IH [OF rest this] show ?thesis .
    next
      case False
      with Cons.prems(3) Inl e show ?thesis by (simp add: case_prod_unfold)
    qed
  qed
qed

lemma save_attempts_written:
  "save_attempts [0 ..< max_retries] df w = (Inr True, w') \<Longrightarrow> disk w' = Some (render_sheet df)"
  by (rule save_attempts_written_gen [of "[0 ..< max_retries]"]) (simp_all add: max_retries_def)

lemma append_row_written:
  "append_row job_info df w = (Inr True, w')
     \<Longrightarrow> disk w' = Some (render_sheet (concat_row df (new_row (today w) job_info)))"
  by (auto simp: append_row_def Let_def split: if_splits dest: save_attempts_written)

lemma append_written:
  assumes "append_to_excel job_info w = (Inr True, w')"
  shows "\<exists>df. disk w' = Some (render_sheet (concat_row df (new_row (today w) job_info)))"
proof -
  let ?g = "wait_if_locked_on_append w"
  let ?l = "load_or_create_excel (snd ?g)"
  from assms have g: "fst ?g"
    by (auto simp: append_to_excel_def reraise_def case_prod_unfold cannot_write_def
        split: bool.splits sum.splits error.splits)
  from assms g obtain df where l: "fst ?l = Inr df"
    by (cases "fst ?l")
       (auto simp: append_to_excel_def reraise_def case_prod_unfold
        split: bool.splits sum.splits error.splits)
  from assms g l have "append_row job_info df (snd ?l) = (Inr True, w')"
    by (cases "append_row job_info df (snd ?l)")
       (auto simp: append_to_excel_def reraise_def case_prod_unfold
        split: bool.splits sum.splits error.splits)
  from append_row_written [OF this] show ?thesis by auto
qed

lemma attempts_eq: "[0 ..< max_retries] = [0, 1, 2]"
  by (simp add: max_retries_def upt_rec)

lemma save_unheld:
  "denials w = [] \<Longrightarrow> save_attempts [0 ..< max_retries] df w =
     (Inr True, logger INFO (''Successfully added job to Excel file. Total rows: ''
                         @ str_nat (length (rows df))) (w\<lparr>disk := Some (render_sheet df)\<rparr>))"
  by (simp add: attempts_eq to_excel_granted)

lemma append_absent:
  assumes "denials w = []" and "disk w = None"
  shows "append_to_excel job_info w =
     save_attempts [0 ..< max_retries]
       (concat_row \<lparr>columns = canonical_columns, rows = []\<rparr> (new_row (today w) job_info))
       (logger INFO ''Created new Excel file structure'' w)"
  using assms
  by (simp add: append_to_excel_def wait_if_locked_on_append_def load_absent create_new_def
      append_row_def df_empty_def save_unheld reraise_def)

lemma cell_at_map: "k \<in> set cols \<Longrightarrow> cell_at cols (map f cols) k = Some (f k)"
  by (simp add: cell_at_def map_of_zip_map)


lemma new_row_keys:
  "fst ` set (new_row now job_info) = set canonical_columns"
  by (simp add: new_row_def canonical_columns_def)

section \<open>Defaults for absent keys\<close>



section \<open>Appending to a file nobody holds\<close>

lemma first_sheet:
  "render_sheet (concat_row \<lparr>columns = canonical_columns, rows = []\<rparr> (new_row now job_info))
     = Workbook canonical_columns
         [[dict_get job_info ''status'' ''Applied'', dict_get job_info ''company_name'' [],
           dict_get job_info ''position_title'' [], dict_get job_info ''location'' [],
           dict_get job_info ''job_functions'' [], dict_get job_info ''date_applied'' now,
           dict_get job_info ''url'' []]]"
  by (simp add: render_sheet_def concat_row_def new_row_def canonical_columns_def write_cell_def)

lemma append_absent_result:
  assumes "denials w = []" and "disk w = None"
  shows "fst (append_to_excel job_info w) = Inr True"
    and "denials (snd (append_to_excel job_info w)) = []"
    and "today (snd (append_to_excel job_info w)) = today w"
    and "disk (snd (append_to_excel job_info w)) = Some (Workbook canonical_columns
         [[dict_get job_info ''status'' ''Applied'', dict_get job_info ''company_name'' [],
           dict_get job_info ''position_title'' [], dict_get job_info ''location'' [],
           dict_get job_info ''job_functions'' [], dict_get job_info ''date_applied'' (today w),
           dict_get job_info ''url'' []]])"
  using assms by (simp_all add: append_absent save_unheld first_sheet)

lemma reraise_value [simp]: "reraise what (Inr v, w) = (Inr v, w)"
  by (simp add: reraise_def)

lemma append_workbook:
  assumes "denials w = []" and "disk w = Some (Workbook h b)" and "''URL'' \<in> set h"
  shows "append_to_excel job_info w =
     reraise ''Error appending to Excel: ''
       (append_row job_info (parse_sheet h b)
          (logger INFO (''Loaded existing Excel file with ''
               @ str_nat (length (rows (parse_sheet h b))) @ '' rows'') w))"
  using assms
  by (simp add: append_to_excel_def wait_if_locked_on_append_def is_file_locked_granted
      load_workbook)

section \<open>Reading back what was appended\<close>

text \<open>
  Claim C6 says that appending a record and loading the table again gives a last row whose
  seven fields are the record's, text for text, the empty URL included. The code does not
  do that for an empty field. Here a complete record with the URL \<open>""\<close> is appended to
  a table that does not exist yet: the append succeeds, and the load that follows returns
  the row with the missing value \<open>NaN\<close> under \<open>URL\<close>, not the empty text.
\<close>

theorem empty_url_read_back_missing:
  "fst (append_to_excel job_empty_url w_fresh) = Inr True
   \<and> dict_get job_empty_url ''url'' [] = []
   \<and> fst (load_or_create_excel (snd (append_to_excel job_empty_url w_fresh)))
       = Inr \<lparr>columns = canonical_columns,
              rows = [[Str ''Applied'', Str ''Acme'', Str ''Engineer'', Str ''Remote'',
                       Str ''Backend'', Str ''2025-01-01'', NaN]]\<rparr>"
proof -
  let ?w = "snd (append_to_excel job_empty_url w_fresh)"
  have g: "denials w_fresh = []" and n: "disk w_fresh = None"
    by (simp_all add: w_fresh_def)
  note r = append_absent_result [OF g n, of job_empty_url]
  have d: "disk ?w = Some (Workbook canonical_columns
      [[''Applied'', ''Acme'', ''Engineer'', ''Remote'', ''Backend'', ''2025-01-01'', []]])"
    using r(4) by (simp add: dict_get_def job_empty_url_def)
  have u: "''URL'' \<in> set canonical_columns" by (simp add: canonical_columns_def)
  have "fst (load_or_create_excel ?w) = Inr (parse_sheet canonical_columns
      [[''Applied'', ''Acme'', ''Engineer'', ''Remote'', ''Backend'', ''2025-01-01'', []]])"
    by (simp add: load_workbook [OF r(2) d u])
  moreover have "parse_sheet canonical_columns
      [[''Applied'', ''Acme'', ''Engineer'', ''Remote'', ''Backend'', ''2025-01-01'', []]]
     = \<lparr>columns = canonical_columns,
              rows = [[Str ''Applied'', Str ''Acme'', Str ''Engineer'', Str ''Remote'',
                       Str ''Backend'', Str ''2025-01-01'', NaN]]\<rparr>"
    by (simp add: parse_sheet_def canonical_columns_def fit_def read_cell_def)
  ultimately show ?thesis using r(1) by (simp add: dict_get_def job_empty_url_def)
qed

section \<open>Duplicates\<close>

lemma new_row_lookup:
  "map_of (new_row now job_info) ''Company'' = Some (Str (dict_get job_info ''company_name'' []))"
  "map_of (new_row now job_info) ''Job Title'' = Some (Str (dict_get job_info ''position_title'' []))"
  by (simp_all add: new_row_def)

lemma concat_row_sheet:
  "render_sheet (concat_row df nr) =
     Workbook (columns df @ filter (\<lambda>k. k \<notin> set (columns df)) (map fst nr))
       (map (map write_cell)
          (map (\<lambda>r. r @ replicate (length (filter (\<lambda>k. k \<notin> set (columns df)) (map fst nr))) NaN)
             (rows df))
        @ [map (\<lambda>c. write_cell (case map_of nr c of Some v \<Rightarrow> v | None \<Rightarrow> NaN))
             (columns df @ filter (\<lambda>k. k \<notin> set (columns df)) (map fst nr))])"
  by (simp add: render_sheet_def concat_row_def Let_def)

lemma filter_last_nonempty: "P x \<Longrightarrow> filter P (xs @ [x]) \<noteq> []"
  by simp

text \<open>
  Away from the empty text the duplicate check works as the specification says: after a
  successful append, a record with the same non-empty company and title is refused
  whatever its other fields, and the file stays as it is.
\<close>

lemma second_append_refused:
  assumes first: "append_to_excel r1 w = (Inr True, w1)" and unheld: "denials w1 = []"
    and company: "dict_get r2 ''company_name'' [] = dict_get r1 ''company_name'' []"
      "dict_get r1 ''company_name'' [] \<noteq> []"
    and title: "dict_get r2 ''position_title'' [] = dict_get r1 ''position_title'' []"
      "dict_get r1 ''position_title'' [] \<noteq> []"
  shows "fst (append_to_excel r2 w1) = Inr False"
    and "disk (snd (append_to_excel r2 w1)) = disk w1"
proof -
  let ?nr = "new_row (today w) r1"
  from append_written [OF first] obtain df
    where d: "disk w1 = Some (render_sheet (concat_row df ?nr))" by blast
  define cols where "cols = columns df @ filter (\<lambda>k. k \<notin> set (columns df)) (map fst ?nr)"
  define f where "f = (\<lambda>c. write_cell (case map_of ?nr c of Some v \<Rightarrow> v | None \<Rightarrow> NaN))"
  define old where "old = map (map write_cell)
          (map (\<lambda>r. r @ replicate (length (filter (\<lambda>k. k \<notin> set (columns df)) (map fst ?nr))) NaN)
             (rows df))"
  define lastrow where "lastrow = map (\<lambda>c. read_cell (f c)) cols"
  define df2 where "df2 = parse_sheet cols (old @ [map f cols])"
  have d': "disk w1 = Some (Workbook cols (old @ [map f cols]))"
    using d by (simp add: concat_row_sheet cols_def f_def old_def)
  have keys: "set canonical_columns \<subseteq> set cols"
    using new_row_keys [of "today w" r1] by (auto simp: cols_def)
  have mem: "''URL'' \<in> set cols" "''Company'' \<in> set cols" "''Job Title'' \<in> set cols"
    using keys by (auto simp: canonical_columns_def)
  have ne: "cols \<noteq> []" using mem(1) by auto
  have cols2: "columns df2 = cols" by (simp add: df2_def)
  have rows2: "rows df2 = map (\<lambda>r. fit (length cols) (map read_cell r)) old @ [lastrow]"
    by (simp add: df2_def parse_sheet_def fit_same_width comp_def lastrow_def)
  have vc: "read_cell (f ''Company'') = Str (dict_get r2 ''company_name'' [])"
    using company by (simp add: f_def new_row_lookup write_cell_def read_cell_def)
  have vt: "read_cell (f ''Job Title'') = Str (dict_get r2 ''position_title'' [])"
    using title by (simp add: f_def new_row_lookup write_cell_def read_cell_def)
  have c: "cell_at cols lastrow ''Company'' = Some (Str (dict_get r2 ''company_name'' []))"
    unfolding lastrow_def
    using cell_at_map [OF mem(2), of "\<lambda>c. read_cell (f c)"] vc by simp
  have t: "cell_at cols lastrow ''Job Title'' = Some (Str (dict_get r2 ''position_title'' []))"
    unfolding lastrow_def
    using cell_at_map [OF mem(3), of "\<lambda>c. read_cell (f c)"] vt by simp
  have dup: "duplicate_check df2 (dict_get r2 ''company_name'' []) (dict_get r2 ''position_title'' [])
               \<noteq> []"
    unfolding duplicate_check_def rows2 cols2 using c t
    by (intro filter_last_nonempty) simp
  have not_empty: "\<not> df_empty df2"
    using ne by (simp add: df_empty_def rows2 cols2)
  have a: "append_to_excel r2 w1 =
     (Inr False,
      logger WARNING (''Similar job already exists: ''
                   @ dict_get r2 ''company_name'' ''None'' @ '' - ''
                   @ dict_get r2 ''position_title'' ''None'')
        (logger INFO (''Loaded existing Excel file with ''
               @ str_nat (length (rows df2)) @ '' rows'') w1))"
    unfolding append_workbook [OF unheld d' mem(1)] df2_def [symmetric]
    using not_empty dup mem(2,3)
    by (simp add: append_row_def Let_def cols2)
  show "fst (append_to_excel r2 w1) = Inr False" by (simp add: a)
  show "disk (snd (append_to_excel r2 w1)) = disk w1" by (simp add: a)
qed

text \<open>
  Claim C1 says that after a record was appended, a second record with the same company and
  title is refused and the table keeps its row count. The code does not do that when the
  company (or the title) is the empty text: the stored empty cell is read back as the
  missing value, which equals no text in the duplicate check. Here the same record, with
  company \<open>""\<close>, is appended twice to a table that does not exist yet: both appends
  report success and the workbook ends with two equal rows.
\<close>

theorem empty_company_appended_twice:
  "dict_get job_no_company ''company_name'' [] = []
   \<and> fst (append_to_excel job_no_company w_fresh) = Inr True
   \<and> fst (append_to_excel job_no_company (snd (append_to_excel job_no_company w_fresh))) = Inr True
   \<and> disk (snd (append_to_excel job_no_company (snd (append_to_excel job_no_company w_fresh))))
       = Some (Workbook canonical_columns
           [[''Applied'', [], ''Engineer'', ''Remote'', ''Backend'', ''2025-01-01'',
             ''https://acme.example/job''],
            [''Applied'', [], ''Engineer'', ''Remote'', ''Backend'', ''2025-01-01'',
             ''https://acme.example/job'']])"
proof -
  let ?w = "snd (append_to_excel job_no_company w_fresh)"
  let ?sheet = "[[''Applied'', [], ''Engineer'', ''Remote'', ''Backend'', ''2025-01-01'',
             ''https://acme.example/job'']]"
  let ?df = "\<lparr>columns = canonical_columns,
              rows = [[Str ''Applied'', NaN, Str ''Engineer'', Str ''Remote'',
                       Str ''Backend'', Str ''2025-01-01'', Str ''https://acme.example/job'']]\<rparr>"
  have g: "denials w_fresh = []" and n: "disk w_fresh = None"
    by (simp_all add: w_fresh_def)
  note r = append_absent_result [OF g n, of job_no_company]
  have d: "disk ?w = Some (Workbook canonical_columns ?sheet)"
    using r(4) by (simp add: dict_get_def job_no_company_def)
  have u: "''URL'' \<in> set canonical_columns" by (simp add: canonical_columns_def)
  have p: "parse_sheet canonical_columns ?sheet = ?df"
    by (simp add: parse_sheet_def canonical_columns_def fit_def read_cell_def)
  have no_dup: "duplicate_check ?df [] ''Engineer'' = []"
    by (simp add: duplicate_check_def cell_at_def canonical_columns_def)
  have row: "concat_row ?df (new_row now job_no_company)
     = \<lparr>columns = canonical_columns,
         rows = [[Str ''Applied'', NaN, Str ''Engineer'', Str ''Remote'',
                       Str ''Backend'', Str ''2025-01-01'', Str ''https://acme.example/job''],
                 [Str ''Applied'', Str [], Str ''Engineer'', Str ''Remote'',
                       Str ''Backend'', Str ''2025-01-01'', Str ''https://acme.example/job'']]\<rparr>" for now
    by (simp add: concat_row_def new_row_def canonical_columns_def dict_get_def job_no_company_def)
  have mem: "''Company'' \<in> set canonical_columns" "''Job Title'' \<in> set canonical_columns"
    "canonical_columns \<noteq> []"
    by (simp_all add: canonical_columns_def)
  have c: "dict_get job_no_company ''company_name'' [] = []"
    and t: "dict_get job_no_company ''position_title'' [] = ''Engineer''"
    by (simp_all add: dict_get_def job_no_company_def)
  have second: "append_to_excel job_no_company ?w =
      reraise ''Error appending to Excel: ''
       (save_attempts [0 ..< max_retries]
         (concat_row ?df (new_row (today ?w) job_no_company))
         (logger INFO (''Loaded existing Excel file with ''
               @ str_nat (length (rows (parse_sheet canonical_columns ?sheet))) @ '' rows'') ?w))"
    unfolding append_workbook [OF r(2) d u]
    by (simp add: p append_row_def df_empty_def c t no_dup mem)
  have first_ok: "fst (append_to_excel job_no_company w_fresh) = Inr True" by (rule r(1))
  have second_ok: "fst (append_to_excel job_no_company ?w) = Inr True"
    unfolding second by (simp add: save_unheld r(2))
  have written: "disk (snd (append_to_excel job_no_company ?w))
       = Some (Workbook canonical_columns
           [[''Applied'', [], ''Engineer'', ''Remote'', ''Backend'', ''2025-01-01'',
             ''https://acme.example/job''],
            [''Applied'', [], ''Engineer'', ''Remote'', ''Backend'', ''2025-01-01'',
             ''https://acme.example/job'']])"
    unfolding second by (simp add: save_unheld r(2) row render_sheet_def write_cell_def)
  show ?thesis
    using c first_ok second_ok written by simp
qed

section \<open>Probing and waiting\<close>

lemma wait_loop_granted:
  "t < m \<Longrightarrow> \<not> fst (is_file_locked w) \<Longrightarrow> wait_loop t m w = (True, snd (is_file_locked w))"
  by (subst wait_loop.simps) (simp add: case_prod_unfold split: bool.split)

lemma wait_loop_refused:
  "t < m \<Longrightarrow> fst (is_file_locked w) \<Longrightarrow>
     wait_loop t m w = wait_loop (t + 2) m
        (sleep 2 (logger INFO (''File is locked, waiting... ('' @ str_int t
                    @ ''s/'' @ str_int m @ ''s)'') (snd (is_file_locked w))))"
  by (subst wait_loop.simps) (simp add: case_prod_unfold split: bool.split)

lemma wait_loop_over: "\<not> t < m \<Longrightarrow> wait_loop t m w = (False, w)"
  by (subst wait_loop.simps) simp

lemma is_file_locked_refused:
  "denials w = True # ds \<Longrightarrow> is_file_locked w = (True, w\<lparr>denials := ds\<rparr>)"
  by (simp add: is_file_locked_def open_file_def)

lemma is_file_locked_next_granted:
  "denials w = False # ds \<Longrightarrow> disk w \<noteq> None \<Longrightarrow> is_file_locked w = (False, w\<lparr>denials := ds\<rparr>)"
  by (simp add: is_file_locked_def open_file_def)

text \<open>k refused probes, then a granted one, all before the budget runs out.\<close>

lemma wait_loop_true_after:
  "denials w = replicate k True @ False # ds \<Longrightarrow> disk w \<noteq> None \<Longrightarrow> t + 2 * int k < m
     \<Longrightarrow> fst (wait_loop t m w) = True
       \<and> slept (snd (wait_loop t m w)) = slept w + 2 * k
       \<and> denials (snd (wait_loop t m w)) = ds
       \<and> disk (snd (wait_loop t m w)) = disk w"
proof (induction k arbitrary: t w)
  case 0
  then have l: "is_file_locked w = (False, w\<lparr>denials := ds\<rparr>)"
    by (simp add: is_file_locked_next_granted)
  from 0 have "t < m" by simp
  then show ?case using l by (simp add: wait_loop_granted)
next
  case (Suc k)
  then have l: "is_file_locked w = (True, w\<lparr>denials := replicate k True @ False # ds\<rparr>)"
    by (simp add: is_file_locked_refused)
  let ?w = "sleep 2 (logger INFO (''File is locked, waiting... ('' @ str_int t
                    @ ''s/'' @ str_int m @ ''s)'') (w\<lparr>denials := replicate k True @ False # ds\<rparr>))"
  from Suc.prems have "t < m" by simp
  then have step: "wait_loop t m w = wait_loop (t + 2) m ?w"
    using l by (simp add: wait_loop_refused)
  have "denials ?w = replicate k True @ False # ds" "disk ?w \<noteq> None" "(t + 2) + 2 * int k < m"
    using Suc.prems by simp_all
  from Suc.IH [OF this] show ?case by (simp add: step)
qed

text \<open>Every probe refused until the budget is used up.\<close>

lemma wait_loop_false_after:
  "denials w = replicate k True @ ds \<Longrightarrow> t + 2 * int k \<ge> m \<Longrightarrow> t + 2 * int k < m + 2
     \<Longrightarrow> fst (wait_loop t m w) = False
       \<and> slept (snd (wait_loop t m w)) = slept w + 2 * k
       \<and> denials (snd (wait_loop t m w)) = ds
       \<and> disk (snd (wait_loop t m w)) = disk w"
proof (induction k arbitrary: t w)
  case 0
  then show ?case by (simp add: wait_loop_over)
next
  case (Suc k)
  then have l: "is_file_locked w = (True, w\<lparr>denials := replicate k True @ ds\<rparr>)"
    by (simp add: is_file_locked_refused)
  let ?w = "sleep 2 (logger INFO (''File is locked, waiting... ('' @ str_int t
                    @ ''s/'' @ str_int m @ ''s)'') (w\<lparr>denials := replicate k True @ ds\<rparr>))"
  from Suc.prems have "t < m" by simp
  then have step: "wait_loop t m w = wait_loop (t + 2) m ?w"
    using l by (simp add: wait_loop_refused)
  have "denials ?w = replicate k True @ ds" "(t + 2) + 2 * int k \<ge> m" "(t + 2) + 2 * int k < m + 2"
    using Suc.prems by simp_all
  from Suc.IH [OF this] show ?case by (simp add: step)
qed

lemma wait_returns_true_at_first_grant:
  "denials w = replicate k True @ False # ds \<Longrightarrow> disk w \<noteq> None \<Longrightarrow> 2 * int k < max_wait
     \<Longrightarrow> fst (wait_for_file_unlock max_wait w) = True
       \<and> slept (snd (wait_for_file_unlock max_wait w)) = slept w + 2 * k
       \<and> disk (snd (wait_for_file_unlock max_wait w)) = disk w"
  using wait_loop_true_after [where t = 0 and m = max_wait and w = w and k = k and ds = ds] by (simp add: wait_for_file_unlock_def)

lemma wait_times_out:
  "denials w = replicate k True @ ds \<Longrightarrow> max_wait \<le> 2 * int k \<Longrightarrow> 2 * int k < max_wait + 2
     \<Longrightarrow> fst (wait_for_file_unlock max_wait w) = False
       \<and> slept (snd (wait_for_file_unlock max_wait w)) = slept w + 2 * k
       \<and> disk (snd (wait_for_file_unlock max_wait w)) = disk w"
  using wait_loop_false_after [where t = 0 and m = max_wait and w = w and k = k and ds = ds] by (simp add: wait_for_file_unlock_def)

text \<open>
  Claim C9 says that the lock probe changes nothing and in particular does not create a
  file that is absent. In the code a granted probe of an absent path creates the file,
  empty: \<open>is_file_locked\<close> on a world without workbook returns \<open>False\<close> and leaves a
  file of no bytes, and so do \<open>update_row_status\<close> and \<open>delete_row\<close>, which probe
  without asking whether the path exists. (The two lemmas above are the other half of the
  claim, which holds: the wait probes every 2 seconds, returns \<open>True\<close> at the first
  granted probe and \<open>False\<close> once the budget is used up.)
\<close>

theorem probe_creates_the_absent_file:
  "disk w_fresh = None
   \<and> is_file_locked w_fresh = (False, w_fresh\<lparr>disk := Some (Garbage [])\<rparr>)
   \<and> disk (snd (update_row_status 1 ''Applied'' w_fresh)) = Some (Garbage [])
   \<and> disk (snd (delete_row 1 w_fresh)) = Some (Garbage [])"
proof -
  let ?w = "w_fresh\<lparr>disk := Some (Garbage [])\<rparr>"
  have p: "is_file_locked w_fresh = (False, ?w)"
    by (simp add: is_file_locked_def open_file_def w_fresh_def)
  have g: "denials ?w = []" and d: "disk ?w = Some (Garbage [])"
    by (simp_all add: w_fresh_def)
  have l: "fst (load_or_create_excel ?w) = Inr \<lparr>columns = canonical_columns, rows = []\<rparr>"
    "disk (snd (load_or_create_excel ?w)) = Some (Garbage [])"
    by (simp_all add: load_garbage [OF g d] create_new_def d)
  have "disk (snd (update_row_status 1 ''Applied'' w_fresh)) = Some (Garbage [])"
    using l by (simp add: update_row_status_def unlocked_or_waited_def p case_prod_unfold df_empty_def)
  moreover have "disk (snd (delete_row 1 w_fresh)) = Some (Garbage [])"
    using l by (simp add: delete_row_def unlocked_or_waited_def p case_prod_unfold df_empty_def)
  ultimately show ?thesis using p by (simp add: w_fresh_def)
qed

section \<open>The pipeline's result\<close>

lemma log_and_raise_value [simp]: "log_and_raise what (Inr v, w) = (Inr v, w)"
  by (simp add: log_and_raise_def)

lemma log_and_raise_error [simp]:
  "log_and_raise what (Inl e, w) = (Inl e, logger ERROR (what @ str_error e) w)"
  by (simp add: log_and_raise_def)

lemma extract_frame [simp]:
  "disk (snd (extract_job_info sv url cp w)) = disk w"
  "denials (snd (extract_job_info sv url cp w)) = denials w"
  "today (snd (extract_job_info sv url cp w)) = today w"
  by (simp_all add: extract_job_info_def fetch_webpage_content_def Let_def
      split: sum.split option.split)

lemma process_after_extract:
  assumes "fst (extract_job_info sv url cp w) = Inr (JObject d)"
  shows "process_job_url sv url cp w =
     (case append_to_excel (d(''url'' \<mapsto> url)) (snd (extract_job_info sv url cp w)) of
        (Inl e, w2) \<Rightarrow> process_failed e w2
      | (Inr added, w2) \<Rightarrow>
          (\<lparr>success = added,
            message = (if added then ''Job information extracted and added to spreadsheet''
                       else ''URL already exists in spreadsheet''),
            job_info_key = Some (JObject (d(''url'' \<mapsto> url))), error_key = None\<rparr>, w2))"
proof -
  have u: "(if url \<noteq> [] then url else []) = url" by simp
  obtain x w1 where x: "extract_job_info sv url cp w = (x, w1)"
    by (cases "extract_job_info sv url cp w")
  with assms show ?thesis by (simp add: process_job_url_def u Let_def)
qed

lemma extract_prose:
  "fst (extract_job_info sv_prose url None w)
     = Inr (JObject (fallback_extraction url ''I could not open that page.'' (today w)))"
  by (simp add: extract_job_info_def fetch_webpage_content_def sv_prose_def)

text \<open>
  Claim C5. \<open>process_job_url\<close> returns a result for every URL, prompt and world; no
  exception of \<open>extract_job_info\<close> or \<open>append_to_excel\<close> passes it. The result has
  one of three shapes: success with the record; no success, no \<open>error\<close> key, the record
  and the message \<open>URL already exists in spreadsheet\<close> (the append found a duplicate); no
  success, the \<open>error\<close> key holding the exception's text, no record and the message
  \<open>Failed to process job URL\<close> (an exception was caught). So the two failures differ in
  the \<open>error\<close> key and in the message.
\<close>

theorem process_returns_structured_result:
  "(let r = fst (process_job_url sv url custom_prompt w) in
      (success r \<and> error_key r = None \<and> job_info_key r \<noteq> None
         \<and> message r = ''Job information extracted and added to spreadsheet'')
    \<or> (\<not> success r \<and> error_key r = None \<and> job_info_key r \<noteq> None
         \<and> message r = ''URL already exists in spreadsheet'')
    \<or> (\<not> success r \<and> error_key r \<noteq> None \<and> job_info_key r = None
         \<and> message r = ''Failed to process job URL''))
   \<and> (\<forall>e w1. extract_job_info sv url custom_prompt w = (Inl e, w1) \<longrightarrow>
          fst (process_job_url sv url custom_prompt w)
            = \<lparr>success = False, message = ''Failed to process job URL'',
               job_info_key = None, error_key = Some (str_error e)\<rparr>)
   \<and> (\<forall>d w1 e w2. extract_job_info sv url custom_prompt w = (Inr (JObject d), w1) \<longrightarrow>
          append_to_excel (d(''url'' \<mapsto> url)) w1 = (Inl e, w2) \<longrightarrow>
          fst (process_job_url sv url custom_prompt w)
            = \<lparr>success = False, message = ''Failed to process job URL'',
               job_info_key = None, error_key = Some (str_error e)\<rparr>)
   \<and> (\<forall>d w1 w2. extract_job_info sv url custom_prompt w = (Inr (JObject d), w1) \<longrightarrow>
          append_to_excel (d(''url'' \<mapsto> url)) w1 = (Inr False, w2) \<longrightarrow>
          fst (process_job_url sv url custom_prompt w)
            = \<lparr>success = False, message = ''URL already exists in spreadsheet'',
               job_info_key = Some (JObject (d(''url'' \<mapsto> url))), error_key = None\<rparr>)"
proof -
  have u: "(if url \<noteq> [] then url else []) = url" by simp
  obtain x w1 where x: "extract_job_info sv url custom_prompt w = (x, w1)"
    by (cases "extract_job_info sv url custom_prompt w")
  show ?thesis
  proof (cases x)
    case (Inl e)
    with x show ?thesis by (simp add: process_job_url_def process_failed_def)
  next
    case (Inr j)
    show ?thesis
    proof (cases j)
      case JOther
      with x Inr show ?thesis by (simp add: process_job_url_def process_failed_def)
    next
      case (JObject d)
      obtain a w2 where a: "append_to_excel (d(''url'' \<mapsto> url)) w1 = (a, w2)"
        by (cases "append_to_excel (d(''url'' \<mapsto> url)) w1")
      show ?thesis
      proof (cases a)
        case (Inl e)
        with x Inr JObject a show ?thesis
          by (simp add: process_job_url_def process_failed_def u)
      next
        case (Inr added)
        with x \<open>x = Inr j\<close> JObject a show ?thesis
          by (cases added) (simp_all add: process_job_url_def u)
      qed
    qed
  qed
qed

theorem process_returns_structured_result_witness:
  "fst (process_job_url sv_down ''https://acme.example/job'' None w_fresh)
     = \<lparr>success = False, message = ''Failed to process job URL'',
        job_info_key = None, error_key = Some ''Connection refused''\<rparr>
   \<and> success (fst (process_job_url sv_prose ''https://acme.example/job'' None w_fresh))
   \<and> fst (process_job_url sv_prose ''https://acme.example/job'' None
            (snd (process_job_url sv_prose ''https://acme.example/job'' None w_fresh)))
       = \<lparr>success = False, message = ''URL already exists in spreadsheet'',
          job_info_key = Some (JObject ((fallback_extraction ''https://acme.example/job''
              ''I could not open that page.'' ''2025-08-27'')
              (''url'' \<mapsto> ''https://acme.example/job''))),
          error_key = None\<rparr>"
proof -
  let ?u = "''https://acme.example/job''"
  let ?f = "fallback_extraction ?u ''I could not open that page.'' ''2025-08-27''"
  let ?j = "?f(''url'' \<mapsto> ?u)"
  let ?x0 = "snd (extract_job_info sv_prose ?u None w_fresh)"
  let ?w1 = "snd (process_job_url sv_prose ?u None w_fresh)"
  let ?x1 = "snd (extract_job_info sv_prose ?u None ?w1)"
  let ?sheet = "[[''Applied'', ''Could not extract'', ''Could not extract'', ''Could not extract'',
      ''Could not extract'', ''2025-08-27'', ?u]]"
  let ?df = "\<lparr>columns = canonical_columns,
      rows = [[Str ''Applied'', Str ''Could not extract'', Str ''Could not extract'',
               Str ''Could not extract'', Str ''Could not extract'', Str ''2025-08-27'', Str ?u]]\<rparr>"
  have down: "fst (process_job_url sv_down ?u None w_fresh)
     = \<lparr>success = False, message = ''Failed to process job URL'',
        job_info_key = None, error_key = Some ''Connection refused''\<rparr>"
    by (simp add: process_job_url_def extract_job_info_def fetch_webpage_content_def sv_down_def
        process_failed_def)
  have t0: "today w_fresh = ''2025-08-27''" by (simp add: w_fresh_def)
  have e0: "fst (extract_job_info sv_prose ?u None w_fresh) = Inr (JObject ?f)"
    by (simp add: extract_prose t0)
  have g0: "denials ?x0 = []" and n0: "disk ?x0 = None" and d0: "today ?x0 = ''2025-08-27''"
    by (simp_all add: w_fresh_def)
  note r = append_absent_result [OF g0 n0, of ?j]
  have p0: "process_job_url sv_prose ?u None w_fresh =
      (\<lparr>success = True, message = ''Job information extracted and added to spreadsheet'',
        job_info_key = Some (JObject ?j), error_key = None\<rparr>,
       snd (append_to_excel ?j ?x0))"
    using r(1) by (simp add: process_after_extract [OF e0] case_prod_unfold)
  have w1: "?w1 = snd (append_to_excel ?j ?x0)" by (simp add: p0)
  have g1: "denials ?w1 = []" and t1: "today ?w1 = ''2025-08-27''"
    using r(2,3) d0 by (simp_all add: w1)
  have s1: "disk ?w1 = Some (Workbook canonical_columns ?sheet)"
    using r(4) d0 by (simp add: w1 dict_get_def fallback_extraction_def)
  have e1: "fst (extract_job_info sv_prose ?u None ?w1) = Inr (JObject ?f)"
    by (simp add: extract_prose t1)
  have g2: "denials ?x1 = []" and s2: "disk ?x1 = Some (Workbook canonical_columns ?sheet)"
    using g1 s1 by simp_all
  have url: "''URL'' \<in> set canonical_columns" by (simp add: canonical_columns_def)
  have p: "parse_sheet canonical_columns ?sheet = ?df"
    by (simp add: parse_sheet_def canonical_columns_def fit_def read_cell_def)
  have c: "dict_get ?j ''company_name'' [] = ''Could not extract''"
    and t: "dict_get ?j ''position_title'' [] = ''Could not extract''"
    by (simp_all add: dict_get_def fallback_extraction_def)
  have dup: "duplicate_check ?df ''Could not extract'' ''Could not extract'' \<noteq> []"
    by (simp add: duplicate_check_def cell_at_def canonical_columns_def)
  have mem: "''Company'' \<in> set canonical_columns" "''Job Title'' \<in> set canonical_columns"
    "canonical_columns \<noteq> []"
    by (simp_all add: canonical_columns_def)
  have a2: "fst (append_to_excel ?j ?x1) = Inr False"
    unfolding append_workbook [OF g2 s2 url]
    by (simp add: p append_row_def df_empty_def c t dup mem)
  have second: "fst (process_job_url sv_prose ?u None ?w1)
       = \<lparr>success = False, message = ''URL already exists in spreadsheet'',
          job_info_key = Some (JObject ?j), error_key = None\<rparr>"
    using a2 by (simp add: process_after_extract [OF e1] case_prod_unfold)
  from process_returns_structured_result [of sv_prose ?u None ?w1]
  show ?thesis using down p0 second by simp
qed

section \<open>Loading a file that is not a workbook\<close>

lemma open_file_disk [simp]: "disk (snd (open_file w)) = disk w"
  by (simp add: open_file_def split: list.split)

lemma is_file_locked_disk: "disk w \<noteq> None \<Longrightarrow> disk (snd (is_file_locked w)) = disk w"
  by (auto simp: is_file_locked_def case_prod_unfold Let_def)

lemma wait_loop_disk: "disk w \<noteq> None \<Longrightarrow> disk (snd (wait_loop t m w)) = disk w"
  by (rule wait_loop_invariant [where I = "\<lambda>v. disk v = disk w"])
     (simp_all add: is_file_locked_disk)

lemma wait_if_locked_on_load_disk [simp]: "disk (snd (wait_if_locked_on_load w)) = disk w"
  by (simp add: wait_if_locked_on_load_def case_prod_unfold wait_for_file_unlock_def
      wait_loop_disk is_file_locked_disk split: bool.split)

lemma read_excel_disk [simp]: "disk (snd (read_excel w)) = disk w"
  by (simp add: read_excel_def case_prod_unfold Let_def split: option.split file_content.split)

lemma create_new_result [simp]:
  "fst (create_new w) = Inr \<lparr>columns = canonical_columns, rows = []\<rparr>"
  "disk (snd (create_new w)) = disk w"
  by (simp_all add: create_new_def)

lemma read_excel_garbage_any:
  "disk w = Some (Garbage g) \<Longrightarrow>
     fst (read_excel w) = Inl (PermissionError ''[Errno 13] Permission denied'')
     \<or> fst (read_excel w) = Inl (OtherException ''File is not a workbook'')"
  by (simp add: read_excel_def case_prod_unfold Let_def)

lemma read_and_migrate_garbage:
  "disk w = Some (Garbage g) \<Longrightarrow> read_and_migrate w = (fst (read_excel w), snd (read_excel w))"
  using read_excel_garbage_any [of w g]
  by (auto simp: read_and_migrate_def case_prod_unfold prod_eq_iff)

lemma to_excel_raises:
  "fst (to_excel df w) = Inl e \<Longrightarrow> \<exists>m. e = PermissionError m"
  by (auto simp: to_excel_def case_prod_unfold Let_def split: if_splits)

lemma on_load_error_raises:
  "fst (on_load_error r) = Inl e \<Longrightarrow> e = cannot_access \<and> (\<exists>m. fst r = Inl (PermissionError m))"
  by (cases r) (auto simp: on_load_error_def split: sum.splits error.splits)

lemma load_raises:
  assumes "fst (load_or_create_excel w) = Inl e"
  shows "(e = locked_on_load \<and> \<not> fst (wait_if_locked_on_load w))
       \<or> (e = cannot_access \<and> fst (wait_if_locked_on_load w)
            \<and> (\<exists>m. fst (read_and_migrate (snd (wait_if_locked_on_load w))) = Inl (PermissionError m)))"
proof (cases "fst (wait_if_locked_on_load w)")
  case False
  with assms show ?thesis
    by (simp add: load_or_create_excel_def case_prod_unfold)
next
  case True
  with assms have "fst (on_load_error (read_and_migrate (snd (wait_if_locked_on_load w)))) = Inl e"
    by (simp add: load_or_create_excel_def case_prod_unfold split: if_splits)
  from on_load_error_raises [OF this] True show ?thesis by simp
qed

lemma create_new_keeps_warning:
  "(WARNING, m) \<in> set (logged (snd (create_new (logger WARNING m w))))"
  by (simp add: create_new_def logger_def)

text \<open>
  Claim C3, as the code has it. For a file that exists and is not a workbook,
  \<open>load_or_create_excel\<close> never changes the file, and it either returns the empty table
  with the seven expected columns, having logged the warning, or raises one of two
  \<^verbatim>\<open>PermissionError\<close>s; with nobody holding the file it returns the empty table. For
  every file, the errors it can raise are these two: the lock timeout, raised when the wait
  ran out, and \<open>Cannot access Excel file\<close>, raised when the read of the workbook (or the
  write of the migrated one) is itself refused.
\<close>

theorem corrupt_file_gives_empty_table:
  "(disk w = Some (Garbage g) \<longrightarrow>
       disk (snd (load_or_create_excel w)) = Some (Garbage g)
     \<and> ((fst (load_or_create_excel w) = Inr \<lparr>columns = canonical_columns, rows = []\<rparr>
           \<and> (WARNING, ''Error reading Excel file, creating new one: File is not a workbook'')
                \<in> set (logged (snd (load_or_create_excel w))))
         \<or> fst (load_or_create_excel w) = Inl locked_on_load
         \<or> fst (load_or_create_excel w) = Inl cannot_access)
     \<and> (denials w = [] \<longrightarrow>
           fst (load_or_create_excel w) = Inr \<lparr>columns = canonical_columns, rows = []\<rparr>))
   \<and> (\<forall>e. fst (load_or_create_excel w) = Inl e \<longrightarrow>
         (e = locked_on_load \<and> \<not> fst (wait_if_locked_on_load w))
       \<or> (e = cannot_access \<and> fst (wait_if_locked_on_load w)
            \<and> (\<exists>m. fst (read_and_migrate (snd (wait_if_locked_on_load w)))
                       = Inl (PermissionError m))))"
proof -
  have corrupt: "disk (snd (load_or_create_excel w)) = Some (Garbage g)
     \<and> ((fst (load_or_create_excel w) = Inr \<lparr>columns = canonical_columns, rows = []\<rparr>
           \<and> (WARNING, ''Error reading Excel file, creating new one: File is not a workbook'')
                \<in> set (logged (snd (load_or_create_excel w))))
         \<or> fst (load_or_create_excel w) = Inl locked_on_load
         \<or> fst (load_or_create_excel w) = Inl cannot_access)"
    if g: "disk w = Some (Garbage g)"
  proof (cases "fst (wait_if_locked_on_load w)")
    case False
    with g show ?thesis
      by (simp add: load_or_create_excel_def case_prod_unfold)
  next
    case True
    let ?w1 = "snd (wait_if_locked_on_load w)"
    have d1: "disk ?w1 = Some (Garbage g)" using g by simp
    have l: "load_or_create_excel w = on_load_error (fst (read_excel ?w1), snd (read_excel ?w1))"
      using True d1
      by (simp add: load_or_create_excel_def case_prod_unfold read_and_migrate_garbage [OF d1])
    from read_excel_garbage_any [OF d1] show ?thesis
    proof
      assume "fst (read_excel ?w1) = Inl (PermissionError ''[Errno 13] Permission denied'')"
      then show ?thesis using d1 by (simp add: l on_load_error_def)
    next
      assume "fst (read_excel ?w1) = Inl (OtherException ''File is not a workbook'')"
      then show ?thesis
        using d1 create_new_keeps_warning
        by (simp add: l on_load_error_def)
    qed
  qed
  have unheld: "fst (load_or_create_excel w) = Inr \<lparr>columns = canonical_columns, rows = []\<rparr>"
    if "disk w = Some (Garbage g)" and "denials w = []"
    using that by (simp add: load_garbage)
  have raises: "(e = locked_on_load \<and> \<not> fst (wait_if_locked_on_load w))
       \<or> (e = cannot_access \<and> fst (wait_if_locked_on_load w)
            \<and> (\<exists>m. fst (read_and_migrate (snd (wait_if_locked_on_load w)))
                       = Inl (PermissionError m)))"
    if "fst (load_or_create_excel w) = Inl e" for e
    using that by (rule load_raises)
  show ?thesis
    using corrupt unheld raises by blast
qed

theorem corrupt_file_gives_empty_table_witness:
  "disk w_corrupt = Some (Garbage ''not a workbook'') \<and> denials w_corrupt = []
   \<and> disk (snd (load_or_create_excel w_corrupt)) = Some (Garbage ''not a workbook'')
   \<and> fst (load_or_create_excel w_corrupt) = Inr \<lparr>columns = canonical_columns, rows = []\<rparr>"
proof -
  have d: "disk w_corrupt = Some (Garbage ''not a workbook'')" and g: "denials w_corrupt = []"
    by (simp_all add: w_corrupt_def)
  from corrupt_file_gives_empty_table [of w_corrupt "''not a workbook''"] d g
  show ?thesis by simp
qed

text \<open>
  Claim C3 as stated fails: it says that for every existing file that is not a table the
  load returns the empty table, and that the only error is the lock timeout. Here the file
  is not a workbook, the probe is granted, so that nothing waits, and the read that follows
  is refused: the load raises \<open>Cannot access Excel file\<close>, which is not the timeout's error.
\<close>

theorem corrupt_file_read_refused:
  "disk w_race = Some (Garbage ''not a workbook'')
   \<and> fst (load_or_create_excel w_race) = Inl cannot_access
   \<and> cannot_access \<noteq> locked_on_load
   \<and> fst (wait_if_locked_on_load w_race)
   \<and> slept (snd (load_or_create_excel w_race)) = 0"
  by (simp add: w_race_def load_or_create_excel_def wait_if_locked_on_load_def
      is_file_locked_def open_file_def read_and_migrate_def read_excel_def on_load_error_def
      cannot_access_def locked_on_load_def)

section \<open>Row numbers out of range\<close>

lemma rows_parse_sheet [simp]: "length (rows (parse_sheet h b)) = length b"
  by (simp add: parse_sheet_def)

lemma read_and_migrate_url:
  assumes "disk w = Some (Workbook h b)" and "''URL'' \<in> set h"
  shows "disk (snd (read_and_migrate w)) = disk w"
    and "fst (read_and_migrate w) = Inr (parse_sheet h b)
         \<or> fst (read_and_migrate w) = Inl (PermissionError ''[Errno 13] Permission denied'')"
  using assms
  by (simp_all add: read_and_migrate_def read_excel_def case_prod_unfold Let_def)

lemma on_load_error_disk [simp]: "disk (snd (on_load_error r)) = disk (snd r)"
  by (cases r) (simp add: on_load_error_def split: sum.split error.split)

lemma on_load_error_fst:
  "fst (on_load_error r) =
     (case fst r of
        Inl (PermissionError m) \<Rightarrow> Inl cannot_access
      | Inl (OtherException m) \<Rightarrow> Inr \<lparr>columns = canonical_columns, rows = []\<rparr>
      | Inr df \<Rightarrow> Inr df)"
  by (cases r) (simp add: on_load_error_def split: sum.split error.split)

lemma load_url_workbook:
  assumes "disk w = Some (Workbook h b)" and "''URL'' \<in> set h"
  shows "disk (snd (load_or_create_excel w)) = disk w"
    and "fst (load_or_create_excel w) = Inr (parse_sheet h b)
         \<or> (\<exists>e. fst (load_or_create_excel w) = Inl e)"
proof -
  let ?w1 = "snd (wait_if_locked_on_load w)"
  have d1: "disk ?w1 = Some (Workbook h b)" using assms(1) by simp
  note m = read_and_migrate_url [OF d1 assms(2)]
  show "disk (snd (load_or_create_excel w)) = disk w"
    using d1 m(1) assms(1)
    by (simp add: load_or_create_excel_def case_prod_unfold split: bool.split)
  show "fst (load_or_create_excel w) = Inr (parse_sheet h b)
         \<or> (\<exists>e. fst (load_or_create_excel w) = Inl e)"
    using d1 m(2)
    by (auto simp: load_or_create_excel_def case_prod_unfold on_load_error_fst split: bool.split)
qed

lemma unlocked_or_waited_disk:
  "disk w \<noteq> None \<Longrightarrow> disk (snd (unlocked_or_waited w)) = disk w"
  by (simp add: unlocked_or_waited_def case_prod_unfold wait_for_file_unlock_def
      wait_loop_disk is_file_locked_disk split: bool.split)

lemma unlocked_or_waited_granted:
  "denials w = [] \<Longrightarrow> disk w \<noteq> None \<Longrightarrow> unlocked_or_waited w = (True, w)"
  by (simp add: unlocked_or_waited_def is_file_locked_granted)

lemma update_failed_frame [simp]:
  "\<not> success (fst (update_failed e w))" "disk (snd (update_failed e w)) = disk w"
  by (simp_all add: update_failed_def failure_def)

lemma delete_failed_frame [simp]:
  "\<not> success (fst (delete_failed e w))" "disk (snd (delete_failed e w)) = disk w"
  by (simp_all add: delete_failed_def failure_def)

lemma update_out_of_range:
  assumes "disk w = Some (Workbook h b)" and "''URL'' \<in> set h"
    and "row_number < 1 \<or> row_number > int (length b)"
  shows "\<not> success (fst (update_row_status row_number new_status w))
       \<and> disk (snd (update_row_status row_number new_status w)) = disk w"
proof -
  let ?w1 = "snd (unlocked_or_waited w)"
  have d1: "disk ?w1 = Some (Workbook h b)"
    using assms(1) by (simp add: unlocked_or_waited_disk)
  note l = load_url_workbook [OF d1 assms(2)]
  from l(2) show ?thesis
  proof
    assume "fst (load_or_create_excel ?w1) = Inr (parse_sheet h b)"
    then show ?thesis
      using assms(3) l(1) d1 assms(1)
      by (simp add: update_row_status_def case_prod_unfold failure_def split: bool.split)
  next
    assume "\<exists>e. fst (load_or_create_excel ?w1) = Inl e"
    then show ?thesis
      using l(1) d1 assms(1)
      by (auto simp: update_row_status_def case_prod_unfold failure_def split: bool.split)
  qed
qed

lemma delete_out_of_range:
  assumes "disk w = Some (Workbook h b)" and "''URL'' \<in> set h"
    and "row_number < 1 \<or> row_number > int (length b)"
  shows "\<not> success (fst (delete_row row_number w))
       \<and> disk (snd (delete_row row_number w)) = disk w"
proof -
  let ?w1 = "snd (unlocked_or_waited w)"
  have d1: "disk ?w1 = Some (Workbook h b)"
    using assms(1) by (simp add: unlocked_or_waited_disk)
  note l = load_url_workbook [OF d1 assms(2)]
  from l(2) show ?thesis
  proof
    assume "fst (load_or_create_excel ?w1) = Inr (parse_sheet h b)"
    then show ?thesis
      using assms(3) l(1) d1 assms(1)
      by (simp add: delete_row_def case_prod_unfold failure_def split: bool.split)
  next
    assume "\<exists>e. fst (load_or_create_excel ?w1) = Inl e"
    then show ?thesis
      using l(1) d1 assms(1)
      by (auto simp: delete_row_def case_prod_unfold failure_def split: bool.split)
  qed
qed

lemma update_out_of_range_message:
  assumes "disk w = Some (Workbook h b)" and "''URL'' \<in> set h" and "denials w = []"
    and "row_number < 1 \<or> row_number > int (length b)"
  shows "fst (update_row_status row_number new_status w)
     = failure (if b = [] then ''No data found in Excel file.''
                else out_of_range row_number (length b))"
  using assms
  by (auto simp: update_row_status_def unlocked_or_waited_granted load_workbook df_empty_def
      parse_sheet_def)

lemma delete_out_of_range_message:
  assumes "disk w = Some (Workbook h b)" and "''URL'' \<in> set h" and "denials w = []"
    and "row_number < 1 \<or> row_number > int (length b)"
  shows "fst (delete_row row_number w)
     = failure (if b = [] then ''No data found in Excel file.''
                else out_of_range row_number (length b))"
  using assms
  by (auto simp: delete_row_def unlocked_or_waited_granted load_workbook df_empty_def
      parse_sheet_def)

text \<open>
  Claim C2, as the code has it. On a workbook that has the \<open>URL\<close> column and \<open>count\<close>
  rows, \<open>update_row_status\<close> and \<open>delete_row\<close> with a row number below 1 or above
  \<open>count\<close> report no success and leave the file as it was, whether or not somebody holds
  the file. With nobody holding it the message is
  \<open>Row number n is out of range. Valid range: 1-count\<close> when the table has rows, and
  \<open>No data found in Excel file.\<close> when it has none.
\<close>

theorem out_of_range_row_is_refused:
  assumes "disk w = Some (Workbook h b)" and "''URL'' \<in> set h"
    and "row_number < 1 \<or> row_number > int (length b)"
  shows "\<not> success (fst (update_row_status row_number new_status w))
       \<and> disk (snd (update_row_status row_number new_status w)) = disk w
       \<and> \<not> success (fst (delete_row row_number w))
       \<and> disk (snd (delete_row row_number w)) = disk w
       \<and> (denials w = [] \<longrightarrow>
            fst (update_row_status row_number new_status w)
              = \<lparr>success = False,
                 message = (if b = [] then ''No data found in Excel file.''
                            else ''Row number '' @ str_int row_number
                                 @ '' is out of range. Valid range: 1-'' @ str_nat (length b))\<rparr>
          \<and> fst (delete_row row_number w)
              = \<lparr>success = False,
                 message = (if b = [] then ''No data found in Excel file.''
                            else ''Row number '' @ str_int row_number
                                 @ '' is out of range. Valid range: 1-'' @ str_nat (length b))\<rparr>)"
  using update_out_of_range [OF assms] delete_out_of_range [OF assms]
    update_out_of_range_message [OF assms(1,2) _ assms(3)]
    delete_out_of_range_message [OF assms(1,2) _ assms(3)]
  by (simp add: failure_def out_of_range_def)

theorem out_of_range_row_is_refused_witness:
  "disk w_two = Some (Workbook canonical_columns sample_rows) \<and> denials w_two = []
   \<and> length sample_rows = 2
   \<and> fst (update_row_status 3 ''Interviewed'' w_two)
       = \<lparr>success = False, message = ''Row number 3 is out of range. Valid range: 1-2''\<rparr>
   \<and> disk (snd (update_row_status 3 ''Interviewed'' w_two)) = disk w_two
   \<and> fst (delete_row 0 w_two)
       = \<lparr>success = False, message = ''Row number 0 is out of range. Valid range: 1-2''\<rparr>
   \<and> disk (snd (delete_row 0 w_two)) = disk w_two"
proof -
  have d: "disk w_two = Some (Workbook canonical_columns sample_rows)" and g: "denials w_two = []"
    by (simp_all add: w_two_def)
  have u: "''URL'' \<in> set canonical_columns" by (simp add: canonical_columns_def)
  have n: "length sample_rows = 2" "sample_rows \<noteq> []" by (simp_all add: sample_rows_def)
  have s: "str_int 3 = ''3''" "str_int 0 = ''0''" "str_nat 2 = ''2''"
    by (simp_all add: str_int_def str_nat.simps)
  have r3: "(3::int) < 1 \<or> 3 > int (length sample_rows)" using n by simp
  have r0: "(0::int) < 1 \<or> 0 > int (length sample_rows)" by simp
  from out_of_range_row_is_refused [OF d u r3, of "''Interviewed''"]
    out_of_range_row_is_refused [OF d u r0, of "''Interviewed''"]
  show ?thesis using d g n s by simp
qed

text \<open>
  Claim C2 as stated fails on the empty table, where it promises a message with the valid
  range for any row number: the check \<^verbatim>\<open>if df.empty\<close> comes first and answers
  \<open>No data found in Excel file.\<close>, for 0 as for 1.
\<close>

theorem empty_table_message_has_no_range:
  "disk w_no_rows = Some (Workbook canonical_columns [])
   \<and> fst (update_row_status 0 ''Applied'' w_no_rows)
       = \<lparr>success = False, message = ''No data found in Excel file.''\<rparr>
   \<and> fst (update_row_status 1 ''Applied'' w_no_rows)
       = \<lparr>success = False, message = ''No data found in Excel file.''\<rparr>
   \<and> fst (delete_row 1 w_no_rows)
       = \<lparr>success = False, message = ''No data found in Excel file.''\<rparr>
   \<and> out_of_range 1 0 = ''Row number 1 is out of range. Valid range: 1-0''"
proof -
  have d: "disk w_no_rows = Some (Workbook canonical_columns [])" and g: "denials w_no_rows = []"
    by (simp_all add: w_no_rows_def)
  have u: "''URL'' \<in> set canonical_columns" by (simp add: canonical_columns_def)
  have "fst (update_row_status n ''Applied'' w_no_rows)
       = \<lparr>success = False, message = ''No data found in Excel file.''\<rparr>" for n
    using d g u
    by (simp add: update_row_status_def unlocked_or_waited_granted load_workbook df_empty_def
      parse_sheet_def failure_def)
  moreover have "fst (delete_row 1 w_no_rows)
       = \<lparr>success = False, message = ''No data found in Excel file.''\<rparr>"
    using d g u
    by (simp add: delete_row_def unlocked_or_waited_granted load_workbook df_empty_def
      parse_sheet_def failure_def)
  moreover have "out_of_range 1 0 = ''Row number 1 is out of range. Valid range: 1-0''"
    by (simp add: out_of_range_def str_int_def str_nat.simps)
  ultimately show ?thesis using d by simp
qed

section \<open>Editing a row in range\<close>


lemma render_parsed:
  "render_sheet \<lparr>columns = h, rows = map (map read_cell) b\<rparr> = Workbook h b"
  by (simp add: render_sheet_def map_idI)


lemma write_read_comp [simp]: "write_cell \<circ> read_cell = id"
  by (rule ext) simp









end
